theory Spec2Isabelle
  imports Main
begin

section \<open>Assets, events and findings\<close>

text \<open>
  Instants (\<^verbatim>\<open>time.Time\<close>) and durations are integers on one time line.
\<close>

type_synonym time = int

text \<open>
  The assets of the open asset model that the plugins inspect:
  \<^verbatim>\<open>domain.FQDN{Name}\<close>, \<^verbatim>\<open>oamreg.AutnumRecord{Handle, WhoisServer}\<close>,
  \<^verbatim>\<open>url.URL{Raw}\<close>, \<^verbatim>\<open>contact.ContactRecord{DiscoveredAt}\<close>; every other
  asset is kept with its type tag only.
\<close>

datatype oam_asset =
    FQDN string
  | AutnumRecord string string
  | URL string
  | ContactRecord string
  | OtherAsset string

fun AssetType :: "oam_asset \<Rightarrow> string" where
  "AssetType (FQDN n) = ''FQDN''"
| "AssetType (AutnumRecord h ws) = ''AutnumRecord''"
| "AssetType (URL r) = ''URL''"
| "AssetType (ContactRecord d) = ''ContactRecord''"
| "AssetType (OtherAsset t) = t"

text \<open>\<^verbatim>\<open>source.Source\<close>: the descriptor of a data source.\<close>

record source =
  Name :: string
  Confidence :: nat

text \<open>\<^verbatim>\<open>dbt.Asset\<close>: a node of the graph, with the asset it stores.\<close>

record dbt_asset =
  ID :: string
  LastSeen :: time
  Asset :: oam_asset

text \<open>\<^verbatim>\<open>dbt.Relation\<close>: the fields the plugins read.\<close>

record dbt_relation =
  Type :: string
  ToAsset :: dbt_asset

text \<open>\<^verbatim>\<open>support.Finding\<close>.\<close>

record finding =
  From :: dbt_asset
  FromName :: string
  To :: dbt_asset
  ToName :: string
  Rel :: string

text \<open>
  \<^verbatim>\<open>rdap.Autnum\<close>, the response that an event may carry in \<^verbatim>\<open>e.Meta\<close>:
  its links (\<^verbatim>\<open>Rel\<close>, \<^verbatim>\<open>Href\<close>, \<^verbatim>\<open>Type\<close>) and its entities (by handle).
\<close>

record rdap_link =
  LinkRel :: string
  LinkHref :: string
  LinkType :: string

record rdap_autnum =
  Links :: "rdap_link list"
  Entities :: "string list"

datatype meta = NoMeta | AutnumMeta rdap_autnum | OtherMeta

text \<open>\<^verbatim>\<open>et.Event\<close>: the subject asset \<^verbatim>\<open>e.Asset\<close> and \<^verbatim>\<open>e.Meta\<close>.\<close>

record event =
  EAsset :: dbt_asset
  EMeta :: meta

text \<open>\<^verbatim>\<open>http.Request\<close>: the URL and the headers set by the plugin.\<close>

record request =
  ReqURL :: string
  ReqHeader :: "(string \<times> string list) list"

text \<open>
  Errors: \<^verbatim>\<open>errors.New(msg)\<close>, the error of \<^verbatim>\<open>support.TTLStartTime\<close>
  when the configuration holds no TTL policy, and the panic of a failed type assertion.
\<close>

datatype error = ErrorNew string | ConfigurationMissing | Panic

text \<open>
  \<^verbatim>\<open>config.Matches\<close>, the result of \<^verbatim>\<open>CheckTransformations\<close>, with its two
  methods.
\<close>

record matches =
  IsMatch :: "string \<Rightarrow> bool"
  Len :: nat

section \<open>Effects and the state of an invocation\<close>

text \<open>
  Every call that leaves the plugin is recorded, in order: the scope filter, the rate
  limiter, the web request (with its answer, \<open>None\<close> for an error), the calls of the
  support package, and, between the start and the end of a closure given to
  \<^verbatim>\<open>support.AppendToDBQueue\<close>, the test of the session's done signal and the
  operations of the graph store.
\<close>

datatype db_call =
    DB_OutgoingRelations dbt_asset time "string list"
  | DB_FindById string time
  | DB_Create dbt_asset string oam_asset
  | DB_Link dbt_asset string dbt_asset

datatype effect =
    E_IsAssetInScope oam_asset
  | E_Take string
  | E_RequestWebPage request "string option"
  | E_GetSource source
  | E_TTLStartTime string string string
  | E_AssetMonitoredWithinTTL dbt_asset dbt_asset time
  | E_MarkAssetMonitored dbt_asset dbt_asset
  | E_SourceToAssetsWithinTTL string string dbt_asset time
  | E_StoreFQDNsWithSource "string list" dbt_asset string string
  | E_ProcessFQDNsWithSource "dbt_asset list" dbt_asset
  | E_CheckTransformations string "string list"
  | E_AppendToDBQueue
  | E_Done bool
  | E_DB db_call
  | E_QueueDone
  | E_storeEntity string
  | E_ProcessAssetsWithSource "finding list" dbt_asset string string

text \<open>
  The state threaded through an invocation: the subject-to-source edges of the graph
  (subject ID and source ID to the time of the edge), the number of web requests made,
  and the effects so far.
\<close>

record st =
  edges :: "string \<times> string \<Rightarrow> time option"
  nreq :: nat
  trace :: "effect list"

definition emit :: "effect \<Rightarrow> st \<Rightarrow> st" where
  "emit x s = s\<lparr>trace := trace s @ [x]\<rparr>"

text \<open>
  The collaborators of a session that are not part of the plugins: the scope, the
  configuration, the clock, the network, the graph store, and the library functions on
  strings. The answer of the network may depend on the number of earlier requests.
\<close>

record world =
  w_scope :: "oam_asset \<Rightarrow> oam_asset option \<times> int"
  w_creds :: "string \<Rightarrow> string option list option"
  w_source :: "source \<Rightarrow> dbt_asset option"
  w_ttl :: "string \<Rightarrow> string \<Rightarrow> string \<Rightarrow> int option"
  w_now :: time
  w_marktime :: time
  w_http :: "nat \<Rightarrow> request \<Rightarrow> string option"
  w_assets_within_ttl :: "string \<Rightarrow> string \<Rightarrow> dbt_asset \<Rightarrow> time \<Rightarrow> dbt_asset list"
  w_store_fqdns :: "string list \<Rightarrow> dbt_asset \<Rightarrow> string \<Rightarrow> string \<Rightarrow> dbt_asset list"
  w_EqualFold :: "string \<Rightarrow> string \<Rightarrow> bool"
  w_ToLower :: "string \<Rightarrow> string"
  w_TrimSpace :: "string \<Rightarrow> string"
  w_RemoveAsteriskLabel :: "string \<Rightarrow> string"
  w_ScrapeSubdomainNames :: "string \<Rightarrow> string list"
  w_Unmarshal_subdomains :: "string \<Rightarrow> string list option"
  w_Unmarshal_certs :: "string \<Rightarrow> string list option"
  w_transformations :: "string \<Rightarrow> string list \<Rightarrow> matches option"
  w_done :: bool
  w_outgoing :: "dbt_asset \<Rightarrow> time \<Rightarrow> string list \<Rightarrow> dbt_relation list option"
  w_find_by_id :: "string \<Rightarrow> time \<Rightarrow> dbt_asset option"
  w_create :: "dbt_asset \<Rightarrow> string \<Rightarrow> oam_asset \<Rightarrow> dbt_asset option"
  w_getJSONLink :: "rdap_link list \<Rightarrow> string option"
  w_storeEntity :: "string \<Rightarrow> finding list"

subsection \<open>The calls of the session and of the support package\<close>

text \<open>\<^verbatim>\<open>e.Session.Scope().IsAssetInScope(a, 0)\<close>: the canonical asset (or nil) and the confidence.\<close>

definition IsAssetInScope :: "world \<Rightarrow> oam_asset \<Rightarrow> st \<Rightarrow> (oam_asset option \<times> int) \<times> st" where
  "IsAssetInScope w a s = (w_scope w a, emit (E_IsAssetInScope a) s)"

text \<open>\<^verbatim>\<open>rlimit.Take()\<close> of the plugin with the given name.\<close>

definition Take :: "string \<Rightarrow> st \<Rightarrow> st" where
  "Take n s = emit (E_Take n) s"

text \<open>\<^verbatim>\<open>http.RequestWebPage\<close>: \<open>None\<close> when \<^verbatim>\<open>err != nil\<close>, else the body.\<close>

definition RequestWebPage :: "world \<Rightarrow> request \<Rightarrow> st \<Rightarrow> string option \<times> st" where
  "RequestWebPage w r s =
     (let resp = w_http w (nreq s) r
      in (resp, emit (E_RequestWebPage r resp) (s\<lparr>nreq := Suc (nreq s)\<rparr>)))"

text \<open>\<^verbatim>\<open>support.GetSource\<close>: the node of the source, or nil.\<close>

definition GetSource :: "world \<Rightarrow> source \<Rightarrow> st \<Rightarrow> dbt_asset option \<times> st" where
  "GetSource w src s = (w_source w src, emit (E_GetSource src) s)"

text \<open>
  Modelled from the spec: \<^verbatim>\<open>support.TTLStartTime\<close> is missing from the sources. The
  TTL is resolved from the configuration keyed by (subject kind, evidence kind, source
  name); the result is \<open>since = now - ttl\<close>, and the absence of a policy is an error.
\<close>

definition TTLStartTime :: "world \<Rightarrow> string \<Rightarrow> string \<Rightarrow> string \<Rightarrow> st \<Rightarrow> (error + time) \<times> st" where
  "TTLStartTime w from to name s =
     (case w_ttl w from to name of
        None \<Rightarrow> (Inl ConfigurationMissing, emit (E_TTLStartTime from to name) s)
      | Some d \<Rightarrow> (Inr (w_now w - d), emit (E_TTLStartTime from to name) s))"

text \<open>
  Modelled from the spec: \<^verbatim>\<open>support.AssetMonitoredWithinTTL\<close> is missing from the
  sources. A subject is freshly monitored by a source iff an edge from the subject to
  the source exists with a timestamp at or after \<open>since\<close>.
\<close>

definition AssetMonitoredWithinTTL :: "dbt_asset \<Rightarrow> dbt_asset \<Rightarrow> time \<Rightarrow> st \<Rightarrow> bool \<times> st" where
  "AssetMonitoredWithinTTL asset src since s =
     ((case edges s (ID asset, ID src) of None \<Rightarrow> False | Some t \<Rightarrow> since \<le> t),
      emit (E_AssetMonitoredWithinTTL asset src since) s)"

text \<open>
  Modelled from the spec: \<^verbatim>\<open>support.MarkAssetMonitored\<close> is missing from the sources.
  It records or refreshes the edge from the subject to the source, with the time of
  the call as its timestamp.
\<close>

definition MarkAssetMonitored :: "world \<Rightarrow> dbt_asset \<Rightarrow> dbt_asset \<Rightarrow> st \<Rightarrow> st" where
  "MarkAssetMonitored w asset src s =
     emit (E_MarkAssetMonitored asset src)
       (s\<lparr>edges := (edges s)((ID asset, ID src) \<mapsto> w_marktime w)\<rparr>)"

text \<open>\<^verbatim>\<open>support.SourceToAssetsWithinTTL\<close>: a read of the graph.\<close>

definition SourceToAssetsWithinTTL ::
  "world \<Rightarrow> string \<Rightarrow> string \<Rightarrow> dbt_asset \<Rightarrow> time \<Rightarrow> st \<Rightarrow> dbt_asset list \<times> st" where
  "SourceToAssetsWithinTTL w name atype src since s =
     (w_assets_within_ttl w name atype src since,
      emit (E_SourceToAssetsWithinTTL name atype src since) s)"

text \<open>\<^verbatim>\<open>support.StoreFQDNsWithSource\<close>: the store step, which writes the names to the graph.\<close>

definition StoreFQDNsWithSource ::
  "world \<Rightarrow> string list \<Rightarrow> dbt_asset \<Rightarrow> string \<Rightarrow> string \<Rightarrow> st \<Rightarrow> dbt_asset list \<times> st" where
  "StoreFQDNsWithSource w names src plugin handler s =
     (w_store_fqdns w names src plugin handler,
      emit (E_StoreFQDNsWithSource names src plugin handler) s)"

text \<open>\<^verbatim>\<open>support.ProcessFQDNsWithSource\<close>: the findings for the assets are built and dispatched.\<close>

definition ProcessFQDNsWithSource :: "dbt_asset list \<Rightarrow> dbt_asset \<Rightarrow> st \<Rightarrow> st" where
  "ProcessFQDNsWithSource assets src s = emit (E_ProcessFQDNsWithSource assets src) s"

subsection \<open>Strings\<close>

text \<open>\<^verbatim>\<open>strconv.Itoa\<close> on a natural number.\<close>

function Itoa :: "nat \<Rightarrow> string" where
  "Itoa n = (if n < 10 then [char_of (48 + n)] else Itoa (n div 10) @ [char_of (48 + n mod 10)])"
  by pat_completeness auto
termination
  by (relation "measure id") auto

declare Itoa.simps [simp del]

datatype fmt_arg = FmtS string | FmtD nat

text \<open>
  \<^verbatim>\<open>fmt.Sprintf\<close> for the verbs the plugins use, \<^verbatim>\<open>%s\<close> with a string and
  \<^verbatim>\<open>%d\<close> with a number; any other character is copied.
\<close>

fun Sprintf :: "string \<Rightarrow> fmt_arg list \<Rightarrow> string" where
  "Sprintf [] args = []"
| "Sprintf [c] args = [c]"
| "Sprintf (c # v # rest) args =
     (if c = CHR ''%'' \<and> v = CHR ''s'' then
        (case args of FmtS x # args' \<Rightarrow> x @ Sprintf rest args' | _ \<Rightarrow> c # Sprintf (v # rest) args)
      else if c = CHR ''%'' \<and> v = CHR ''d'' then
        (case args of FmtD n # args' \<Rightarrow> Itoa n @ Sprintf rest args' | _ \<Rightarrow> c # Sprintf (v # rest) args)
      else c # Sprintf (v # rest) args)"

text \<open>\<^verbatim>\<open>strings.Split(s, "\n")\<close>, for a separator of one byte.\<close>

fun Split :: "string \<Rightarrow> char \<Rightarrow> string list" where
  "Split [] sep = [[]]"
| "Split (c # cs) sep =
     (if c = sep then [] # Split cs sep
      else (case Split cs sep of [] \<Rightarrow> [[c]] | x # xs \<Rightarrow> (c # x) # xs))"

text \<open>
  Modelled from the spec: the string set (\<^verbatim>\<open>stringset\<close>) is a library outside the
  sources. It is a pure uniqueness collector over the strings inserted; the order of
  \<^verbatim>\<open>Slice\<close> is not guaranteed, and no theorem below depends on it.
\<close>

definition stringset_New :: "string list" where
  "stringset_New = []"

definition Insert :: "string \<Rightarrow> string list \<Rightarrow> string list" where
  "Insert x xs = (if x \<in> set xs then xs else xs @ [x])"

definition Slice :: "string list \<Rightarrow> string list" where
  "Slice xs = xs"

section \<open>The plugins\<close>

text \<open>
  The fields of a plugin that its methods read: its name, its format string (for the
  scrapers), the rate of its limiter and its source descriptor.
\<close>

record plugin =
  name :: string
  fmtstr :: string
  rlimit :: nat
  psource :: source

subsection \<open>DuckDuckGo\<close>

definition NewDuckDuckGo :: plugin where
  "NewDuckDuckGo =
     \<lparr>name = ''DuckDuckGo'',
      fmtstr = ''https://html.duckduckgo.com/html/?q=site:%s -site:www.%s'',
      rlimit = 2,
      psource = \<lparr>Name = ''DuckDuckGo'', Confidence = 60\<rparr>\<rparr>"

definition duckDuckGo_lookup ::
  "plugin \<Rightarrow> world \<Rightarrow> event \<Rightarrow> string \<Rightarrow> dbt_asset \<Rightarrow> time \<Rightarrow> st \<Rightarrow> dbt_asset list \<times> st" where
  "duckDuckGo_lookup d w e nm src since s = SourceToAssetsWithinTTL w nm ''FQDN'' src since s"

definition duckDuckGo_store ::
  "plugin \<Rightarrow> world \<Rightarrow> event \<Rightarrow> string list \<Rightarrow> dbt_asset \<Rightarrow> st \<Rightarrow> dbt_asset list \<times> st" where
  "duckDuckGo_store d w e names src s =
     StoreFQDNsWithSource w names src (name d) (name d @ ''-Handler'') s"

definition duckDuckGo_process :: "plugin \<Rightarrow> event \<Rightarrow> dbt_asset list \<Rightarrow> dbt_asset \<Rightarrow> st \<Rightarrow> st" where
  "duckDuckGo_process d e assets src s = ProcessFQDNsWithSource assets src s"

text \<open>The loop of \<^verbatim>\<open>query\<close> over the scraped names.\<close>

fun duckDuckGo_names :: "world \<Rightarrow> string list \<Rightarrow> string list \<Rightarrow> st \<Rightarrow> string list \<times> st" where
  "duckDuckGo_names w [] subs s = (subs, s)"
| "duckDuckGo_names w (n # ns) subs s =
     (let nstr = w_ToLower w (w_TrimSpace w n)
      in case IsAssetInScope w (FQDN nstr) s of
           ((a, conf), s1) \<Rightarrow>
             if conf > 0 then duckDuckGo_names w ns (Insert nstr subs) s1
             else duckDuckGo_names w ns subs s1)"

definition duckDuckGo_query ::
  "plugin \<Rightarrow> world \<Rightarrow> event \<Rightarrow> string \<Rightarrow> dbt_asset \<Rightarrow> st \<Rightarrow> dbt_asset list \<times> st" where
  "duckDuckGo_query d w e nm src s =
     (let subs = stringset_New;
          s1 = Take (name d) s
      in case RequestWebPage w \<lparr>ReqURL = Sprintf (fmtstr d) [FmtS nm, FmtS nm], ReqHeader = []\<rparr> s1 of
           (None, s2) \<Rightarrow> ([], s2)
         | (Some body, s2) \<Rightarrow>
             if body = [] then ([], s2)
             else (case duckDuckGo_names w (w_ScrapeSubdomainNames w body) subs s2 of
                     (subs', s3) \<Rightarrow> duckDuckGo_store d w e (Slice subs') src s3))"

definition duckDuckGo_check :: "plugin \<Rightarrow> world \<Rightarrow> event \<Rightarrow> st \<Rightarrow> error option \<times> st" where
  "duckDuckGo_check d w e s =
     (case Asset (EAsset e) of
        FQDN fqdn \<Rightarrow>
          (case IsAssetInScope w (FQDN fqdn) s of
             ((a, conf), s1) \<Rightarrow>
               if conf = 0 \<or> a = None then (None, s1)
               else if (case a of Some (FQDN f) \<Rightarrow> \<not> w_EqualFold w fqdn f | _ \<Rightarrow> True)
               then (None, s1)
               else
                 (case GetSource w (psource d) s1 of
                    (None, s2) \<Rightarrow>
                      (Some (ErrorNew ''failed to obtain the plugin source information''), s2)
                  | (Some src, s2) \<Rightarrow>
                      (case TTLStartTime w ''FQDN'' ''FQDN'' (name d) s2 of
                         (Inl err, s3) \<Rightarrow> (Some err, s3)
                       | (Inr since, s3) \<Rightarrow>
                           (case AssetMonitoredWithinTTL (EAsset e) src since s3 of
                              (fresh, s4) \<Rightarrow>
                                (case (if fresh then duckDuckGo_lookup d w e fqdn src since s4
                                       else (case duckDuckGo_query d w e fqdn src s4 of
                                               (ns, s5) \<Rightarrow>
                                                 (ns, MarkAssetMonitored w (EAsset e) src s5))) of
                                   (names, s6) \<Rightarrow>
                                     if length names > 0
                                     then (None, duckDuckGo_process d e names src s6)
                                     else (None, s6))))))
      | _ \<Rightarrow> (Some (ErrorNew ''failed to extract the FQDN asset''), s))"

subsection \<open>SiteDossier\<close>

definition NewSiteDossier :: plugin where
  "NewSiteDossier =
     \<lparr>name = ''SiteDossier'',
      fmtstr = ''http://www.sitedossier.com/parentdomain/%s/%d'',
      rlimit = 4,
      psource = \<lparr>Name = ''SiteDossier'', Confidence = 60\<rparr>\<rparr>"

definition siteDossier_lookup ::
  "plugin \<Rightarrow> world \<Rightarrow> event \<Rightarrow> string \<Rightarrow> dbt_asset \<Rightarrow> time \<Rightarrow> st \<Rightarrow> dbt_asset list \<times> st" where
  "siteDossier_lookup sd w e nm src since s = SourceToAssetsWithinTTL w nm ''FQDN'' src since s"

definition siteDossier_store ::
  "plugin \<Rightarrow> world \<Rightarrow> event \<Rightarrow> string list \<Rightarrow> dbt_asset \<Rightarrow> st \<Rightarrow> dbt_asset list \<times> st" where
  "siteDossier_store sd w e names src s =
     StoreFQDNsWithSource w names src (name sd) (name sd @ ''-Handler'') s"

definition siteDossier_process :: "plugin \<Rightarrow> event \<Rightarrow> dbt_asset list \<Rightarrow> dbt_asset \<Rightarrow> st \<Rightarrow> st" where
  "siteDossier_process sd e assets src s = ProcessFQDNsWithSource assets src s"

text \<open>The inner loop of \<^verbatim>\<open>query\<close>, over the names scraped from one page.\<close>

fun siteDossier_names :: "world \<Rightarrow> string list \<Rightarrow> string list \<Rightarrow> st \<Rightarrow> string list \<times> st" where
  "siteDossier_names w [] subs s = (subs, s)"
| "siteDossier_names w (n # ns) subs s =
     (let nstr = w_ToLower w (w_TrimSpace w n)
      in case IsAssetInScope w (FQDN nstr) s of
           ((a, conf), s1) \<Rightarrow>
             if conf > 0 then siteDossier_names w ns (Insert nstr subs) s1
             else siteDossier_names w ns subs s1)"

text \<open>
  The outer loop \<^verbatim>\<open>for i := 1; i < 20; i++\<close>, from page \<open>i\<close> on; \<^verbatim>\<open>break\<close> leaves
  it with the names collected so far.
\<close>

function siteDossier_pages ::
  "plugin \<Rightarrow> world \<Rightarrow> string \<Rightarrow> nat \<Rightarrow> string list \<Rightarrow> st \<Rightarrow> string list \<times> st" where
  "siteDossier_pages sd w nm i subs s =
     (if i < 20 then
        (case RequestWebPage w
                \<lparr>ReqURL = Sprintf (fmtstr sd) [FmtS nm, FmtD i], ReqHeader = []\<rparr>
                (Take (name sd) s) of
           (None, s2) \<Rightarrow> (subs, s2)
         | (Some body, s2) \<Rightarrow>
             if body = [] then (subs, s2)
             else (case siteDossier_names w (w_ScrapeSubdomainNames w body) subs s2 of
                     (subs', s3) \<Rightarrow> siteDossier_pages sd w nm (i + 1) subs' s3))
      else (subs, s))"
  by pat_completeness auto
termination
  by (relation "measure (\<lambda>(sd, w, nm, i, subs, s). 20 - i)") auto

declare siteDossier_pages.simps [simp del]

text \<open>The request of \<^verbatim>\<open>query\<close> for page \<open>i\<close>.\<close>

definition siteDossier_request :: "plugin \<Rightarrow> string \<Rightarrow> nat \<Rightarrow> request" where
  "siteDossier_request sd nm i =
     \<lparr>ReqURL = Sprintf (fmtstr sd) [FmtS nm, FmtD i], ReqHeader = []\<rparr>"

definition siteDossier_query ::
  "plugin \<Rightarrow> world \<Rightarrow> event \<Rightarrow> string \<Rightarrow> dbt_asset \<Rightarrow> st \<Rightarrow> dbt_asset list \<times> st" where
  "siteDossier_query sd w e nm src s =
     (case siteDossier_pages sd w nm 1 stringset_New s of
        (subs, s1) \<Rightarrow> siteDossier_store sd w e (Slice subs) src s1)"

definition siteDossier_check :: "plugin \<Rightarrow> world \<Rightarrow> event \<Rightarrow> st \<Rightarrow> error option \<times> st" where
  "siteDossier_check sd w e s =
     (case Asset (EAsset e) of
        FQDN fqdn \<Rightarrow>
          (case IsAssetInScope w (FQDN fqdn) s of
             ((a, conf), s1) \<Rightarrow>
               if conf = 0 \<or> a = None then (None, s1)
               else if (case a of Some (FQDN f) \<Rightarrow> \<not> w_EqualFold w fqdn f | _ \<Rightarrow> True)
               then (None, s1)
               else
                 (case GetSource w (psource sd) s1 of
                    (None, s2) \<Rightarrow>
                      (Some (ErrorNew ''failed to obtain the plugin source information''), s2)
                  | (Some src, s2) \<Rightarrow>
                      (case TTLStartTime w ''FQDN'' ''FQDN'' (name sd) s2 of
                         (Inl err, s3) \<Rightarrow> (Some err, s3)
                       | (Inr since, s3) \<Rightarrow>
                           (case AssetMonitoredWithinTTL (EAsset e) src since s3 of
                              (fresh, s4) \<Rightarrow>
                                (case (if fresh then siteDossier_lookup sd w e fqdn src since s4
                                       else (case siteDossier_query sd w e fqdn src s4 of
                                               (ns, s5) \<Rightarrow>
                                                 (ns, MarkAssetMonitored w (EAsset e) src s5))) of
                                   (names, s6) \<Rightarrow>
                                     if length names > 0
                                     then (None, siteDossier_process sd e names src s6)
                                     else (None, s6))))))
      | _ \<Rightarrow> (Some (ErrorNew ''failed to extract the FQDN asset''), s))"

subsection \<open>crt.sh\<close>

definition NewCrtsh :: plugin where
  "NewCrtsh =
     \<lparr>name = ''crt.sh'',
      fmtstr = [],
      rlimit = 2,
      psource = \<lparr>Name = ''HackerTarget'', Confidence = 100\<rparr>\<rparr>"

definition crtsh_lookup ::
  "plugin \<Rightarrow> world \<Rightarrow> event \<Rightarrow> string \<Rightarrow> dbt_asset \<Rightarrow> time \<Rightarrow> st \<Rightarrow> dbt_asset list \<times> st" where
  "crtsh_lookup c w e nm src since s = SourceToAssetsWithinTTL w nm ''FQDN'' src since s"

definition crtsh_store ::
  "plugin \<Rightarrow> world \<Rightarrow> event \<Rightarrow> string list \<Rightarrow> dbt_asset \<Rightarrow> st \<Rightarrow> dbt_asset list \<times> st" where
  "crtsh_store c w e names src s =
     StoreFQDNsWithSource w names src (name c) (name c @ ''-Handler'') s"

definition crtsh_process :: "plugin \<Rightarrow> event \<Rightarrow> dbt_asset list \<Rightarrow> dbt_asset \<Rightarrow> st \<Rightarrow> st" where
  "crtsh_process c e assets src s = ProcessFQDNsWithSource assets src s"

text \<open>The inner loop over the lines of one certificate's \<^verbatim>\<open>name_value\<close>.\<close>

fun crtsh_lines :: "world \<Rightarrow> string list \<Rightarrow> string list \<Rightarrow> st \<Rightarrow> string list \<times> st" where
  "crtsh_lines w [] names s = (names, s)"
| "crtsh_lines w (n # ns) names s =
     (let nstr = w_ToLower w (w_TrimSpace w (w_RemoveAsteriskLabel w n))
      in case IsAssetInScope w (FQDN nstr) s of
           ((a, conf), s1) \<Rightarrow>
             if conf > 0 then crtsh_lines w ns (names @ [nstr]) s1
             else crtsh_lines w ns names s1)"

text \<open>The outer loop over the certificates.\<close>

fun crtsh_certs :: "world \<Rightarrow> string list \<Rightarrow> string list \<Rightarrow> st \<Rightarrow> string list \<times> st" where
  "crtsh_certs w [] names s = (names, s)"
| "crtsh_certs w (cert # certs) names s =
     (case crtsh_lines w (Split cert (CHR 0x0A)) names s of
        (names', s1) \<Rightarrow> crtsh_certs w certs names' s1)"

definition crtsh_query ::
  "plugin \<Rightarrow> world \<Rightarrow> event \<Rightarrow> string \<Rightarrow> dbt_asset \<Rightarrow> st \<Rightarrow> dbt_asset list \<times> st" where
  "crtsh_query c w e nm src s =
     (case RequestWebPage w
             \<lparr>ReqURL = ''https://crt.sh/?CN='' @ nm @ ''&output=json&exclude=expired'',
              ReqHeader = []\<rparr>
             (Take (name c) s) of
        (None, s2) \<Rightarrow> ([], s2)
      | (Some body, s2) \<Rightarrow>
          (case w_Unmarshal_certs w
                  ([CHR ''{'', CHR 0x22] @ ''certs'' @ [CHR 0x22, CHR '':''] @ body @ ''}'') of
             None \<Rightarrow> ([], s2)
           | Some certs \<Rightarrow>
               (case crtsh_certs w certs [] s2 of
                  (names, s3) \<Rightarrow> crtsh_store c w e names src s3)))"

definition crtsh_check :: "plugin \<Rightarrow> world \<Rightarrow> event \<Rightarrow> st \<Rightarrow> error option \<times> st" where
  "crtsh_check c w e s =
     (case Asset (EAsset e) of
        FQDN fqdn \<Rightarrow>
          (case IsAssetInScope w (FQDN fqdn) s of
             ((a, conf), s1) \<Rightarrow>
               if conf = 0 \<or> a = None then (None, s1)
               else if (case a of Some (FQDN f) \<Rightarrow> \<not> w_EqualFold w fqdn f | _ \<Rightarrow> True)
               then (None, s1)
               else
                 (case GetSource w (psource c) s1 of
                    (None, s2) \<Rightarrow>
                      (Some (ErrorNew ''failed to obtain the plugin source information''), s2)
                  | (Some src, s2) \<Rightarrow>
                      (case TTLStartTime w ''FQDN'' ''FQDN'' (name c) s2 of
                         (Inl err, s3) \<Rightarrow> (Some err, s3)
                       | (Inr since, s3) \<Rightarrow>
                           (case AssetMonitoredWithinTTL (EAsset e) src since s3 of
                              (fresh, s4) \<Rightarrow>
                                (case (if fresh then crtsh_lookup c w e fqdn src since s4
                                       else (case crtsh_query c w e fqdn src s4 of
                                               (ns, s5) \<Rightarrow>
                                                 (ns, MarkAssetMonitored w (EAsset e) src s5))) of
                                   (names, s6) \<Rightarrow>
                                     if length names > 0
                                     then (None, crtsh_process c e names src s6)
                                     else (None, s6))))))
      | _ \<Rightarrow> (Some (ErrorNew ''failed to extract the FQDN asset''), s))"

text \<open>
  The API keys of the configured credentials: \<^verbatim>\<open>cr != nil && cr.Apikey != ""\<close>. A
  credential is \<open>None\<close> when nil, else its \<^verbatim>\<open>Apikey\<close>.
\<close>

fun apikeys :: "string option list \<Rightarrow> string list" where
  "apikeys [] = []"
| "apikeys (cr # crs) =
     (case cr of
        None \<Rightarrow> apikeys crs
      | Some k \<Rightarrow> if k \<noteq> [] then k # apikeys crs else apikeys crs)"

subsection \<open>Chaos\<close>

definition NewChaos :: plugin where
  "NewChaos =
     \<lparr>name = ''Chaos'',
      fmtstr = [],
      rlimit = 10,
      psource = \<lparr>Name = ''Chaos'', Confidence = 80\<rparr>\<rparr>"

definition chaos_lookup ::
  "plugin \<Rightarrow> world \<Rightarrow> event \<Rightarrow> string \<Rightarrow> dbt_asset \<Rightarrow> time \<Rightarrow> st \<Rightarrow> dbt_asset list \<times> st" where
  "chaos_lookup c w e nm src since s = SourceToAssetsWithinTTL w nm ''FQDN'' src since s"

definition chaos_store ::
  "plugin \<Rightarrow> world \<Rightarrow> event \<Rightarrow> string list \<Rightarrow> dbt_asset \<Rightarrow> st \<Rightarrow> dbt_asset list \<times> st" where
  "chaos_store c w e names src s =
     StoreFQDNsWithSource w names src (name c) (name c @ ''-Handler'') s"

definition chaos_process :: "plugin \<Rightarrow> event \<Rightarrow> dbt_asset list \<Rightarrow> dbt_asset \<Rightarrow> st \<Rightarrow> st" where
  "chaos_process c e assets src s = ProcessFQDNsWithSource assets src s"

text \<open>The inner loop over the subdomains of one answer.\<close>

fun chaos_subs :: "world \<Rightarrow> string \<Rightarrow> string list \<Rightarrow> string list \<Rightarrow> st \<Rightarrow> string list \<times> st" where
  "chaos_subs w nm [] names s = (names, s)"
| "chaos_subs w nm (sub # subs) names s =
     (let n = w_RemoveAsteriskLabel w (sub @ ''.'' @ nm)
      in case IsAssetInScope w (FQDN n) s of
           ((a, conf), s1) \<Rightarrow>
             if conf > 0
             then chaos_subs w nm subs (names @ [w_ToLower w (w_TrimSpace w n)]) s1
             else chaos_subs w nm subs names s1)"

text \<open>The loop over the keys; \<^verbatim>\<open>continue\<close> goes on with the next key.\<close>

fun chaos_keys ::
  "plugin \<Rightarrow> world \<Rightarrow> string \<Rightarrow> string list \<Rightarrow> string list \<Rightarrow> st \<Rightarrow> string list \<times> st" where
  "chaos_keys c w nm [] names s = (names, s)"
| "chaos_keys c w nm (key # keys) names s =
     (case RequestWebPage w
             \<lparr>ReqURL = ''https://dns.projectdiscovery.io/dns/'' @ nm @ ''/subdomains'',
              ReqHeader = [(''Authorization'', [key])]\<rparr>
             (Take (name c) s) of
        (None, s2) \<Rightarrow> chaos_keys c w nm keys names s2
      | (Some body, s2) \<Rightarrow>
          (case w_Unmarshal_subdomains w body of
             None \<Rightarrow> chaos_keys c w nm keys names s2
           | Some result \<Rightarrow>
               (case chaos_subs w nm result names s2 of
                  (names', s3) \<Rightarrow> chaos_keys c w nm keys names' s3)))"

definition chaos_query ::
  "plugin \<Rightarrow> world \<Rightarrow> event \<Rightarrow> string \<Rightarrow> dbt_asset \<Rightarrow> string list \<Rightarrow> st \<Rightarrow> dbt_asset list \<times> st" where
  "chaos_query c w e nm src keys s =
     (case chaos_keys c w nm keys [] s of
        (names, s1) \<Rightarrow> chaos_store c w e names src s1)"

definition chaos_check :: "plugin \<Rightarrow> world \<Rightarrow> event \<Rightarrow> st \<Rightarrow> error option \<times> st" where
  "chaos_check c w e s =
     (case Asset (EAsset e) of
        FQDN fqdn \<Rightarrow>
          (case w_creds w (name c) of
             None \<Rightarrow> (None, s)
           | Some creds \<Rightarrow>
               if length creds = 0 then (None, s)
               else
                (let keys = apikeys creds
                 in case IsAssetInScope w (FQDN fqdn) s of
                   ((a, conf), s1) \<Rightarrow>
                     if conf = 0 \<or> a = None then (None, s1)
                     else if (case a of Some (FQDN f) \<Rightarrow> \<not> w_EqualFold w fqdn f | _ \<Rightarrow> True)
                     then (None, s1)
                     else
                       (case GetSource w (psource c) s1 of
                          (None, s2) \<Rightarrow>
                            (Some (ErrorNew ''failed to obtain the plugin source information''), s2)
                        | (Some src, s2) \<Rightarrow>
                            (case TTLStartTime w ''FQDN'' ''FQDN'' (name c) s2 of
                               (Inl err, s3) \<Rightarrow> (Some err, s3)
                             | (Inr since, s3) \<Rightarrow>
                                 (case AssetMonitoredWithinTTL (EAsset e) src since s3 of
                                    (fresh, s4) \<Rightarrow>
                                      (case (if fresh then chaos_lookup c w e fqdn src since s4
                                             else (case chaos_query c w e fqdn src keys s4 of
                                                     (ns, s5) \<Rightarrow>
                                                       (ns, MarkAssetMonitored w (EAsset e) src s5))) of
                                         (names, s6) \<Rightarrow>
                                           if length names > 0
                                           then (None, chaos_process c e names src s6)
                                           else (None, s6)))))))
      | _ \<Rightarrow> (Some (ErrorNew ''failed to extract the FQDN asset''), s))"

subsection \<open>SecurityTrails\<close>

definition NewSecurityTrails :: plugin where
  "NewSecurityTrails =
     \<lparr>name = ''SecurityTrails'',
      fmtstr = [],
      rlimit = 2,
      psource = \<lparr>Name = ''SecurityTrails'', Confidence = 80\<rparr>\<rparr>"

definition securityTrails_lookup ::
  "plugin \<Rightarrow> world \<Rightarrow> event \<Rightarrow> string \<Rightarrow> dbt_asset \<Rightarrow> time \<Rightarrow> st \<Rightarrow> dbt_asset list \<times> st" where
  "securityTrails_lookup st w e nm src since s = SourceToAssetsWithinTTL w nm ''FQDN'' src since s"

definition securityTrails_store ::
  "plugin \<Rightarrow> world \<Rightarrow> event \<Rightarrow> string list \<Rightarrow> dbt_asset \<Rightarrow> st \<Rightarrow> dbt_asset list \<times> st" where
  "securityTrails_store st w e names src s =
     StoreFQDNsWithSource w names src (name st) (name st @ ''-Handler'') s"

definition securityTrails_process :: "plugin \<Rightarrow> event \<Rightarrow> dbt_asset list \<Rightarrow> dbt_asset \<Rightarrow> st \<Rightarrow> st" where
  "securityTrails_process st e assets src s = ProcessFQDNsWithSource assets src s"

text \<open>The inner loop over the subdomains of one answer.\<close>

fun securityTrails_subs ::
  "world \<Rightarrow> string \<Rightarrow> string list \<Rightarrow> string list \<Rightarrow> st \<Rightarrow> string list \<times> st" where
  "securityTrails_subs w nm [] names s = (names, s)"
| "securityTrails_subs w nm (sub # subs) names s =
     (let nstr = w_ToLower w (w_TrimSpace w (w_RemoveAsteriskLabel w (sub @ ''.'' @ nm)))
      in case IsAssetInScope w (FQDN nstr) s of
           ((a, conf), s1) \<Rightarrow>
             if conf > 0 then securityTrails_subs w nm subs (names @ [nstr]) s1
             else securityTrails_subs w nm subs names s1)"

text \<open>
  The loop over the keys; \<^verbatim>\<open>continue\<close> goes on with the next key, \<^verbatim>\<open>break\<close> leaves
  the loop.
\<close>

fun securityTrails_keys ::
  "plugin \<Rightarrow> world \<Rightarrow> string \<Rightarrow> string list \<Rightarrow> string list \<Rightarrow> st \<Rightarrow> string list \<times> st" where
  "securityTrails_keys st w nm [] names s = (names, s)"
| "securityTrails_keys st w nm (key # keys) names s =
     (case RequestWebPage w
             \<lparr>ReqURL = ''https://api.securitytrails.com/v1/domain/'' @ nm @ ''/subdomains'',
              ReqHeader = [(''APIKEY'', [key])]\<rparr>
             (Take (name st) s) of
        (None, s2) \<Rightarrow> securityTrails_keys st w nm keys names s2
      | (Some body, s2) \<Rightarrow>
          if body = [] then securityTrails_keys st w nm keys names s2
          else
            (case w_Unmarshal_subdomains w body of
               None \<Rightarrow> securityTrails_keys st w nm keys names s2
             | Some result \<Rightarrow> securityTrails_subs w nm result names s2))"

definition securityTrails_query ::
  "plugin \<Rightarrow> world \<Rightarrow> event \<Rightarrow> string \<Rightarrow> dbt_asset \<Rightarrow> string list \<Rightarrow> st \<Rightarrow> dbt_asset list \<times> st" where
  "securityTrails_query st w e nm src keys s =
     (case securityTrails_keys st w nm keys [] s of
        (names, s1) \<Rightarrow> securityTrails_store st w e names src s1)"

definition securityTrails_check :: "plugin \<Rightarrow> world \<Rightarrow> event \<Rightarrow> st \<Rightarrow> error option \<times> st" where
  "securityTrails_check st w e s =
     (case Asset (EAsset e) of
        FQDN fqdn \<Rightarrow>
          (case w_creds w (name st) of
             None \<Rightarrow> (None, s)
           | Some creds \<Rightarrow>
               if length creds = 0 then (None, s)
               else
                (let keys = apikeys creds
                 in case IsAssetInScope w (FQDN fqdn) s of
                   ((a, conf), s1) \<Rightarrow>
                     if conf = 0 \<or> a = None then (None, s1)
                     else if (case a of Some (FQDN f) \<Rightarrow> \<not> w_EqualFold w fqdn f | _ \<Rightarrow> True)
                     then (None, s1)
                     else
                       (case GetSource w (psource st) s1 of
                          (None, s2) \<Rightarrow>
                            (Some (ErrorNew ''failed to obtain the plugin source information''), s2)
                        | (Some src, s2) \<Rightarrow>
                            (case TTLStartTime w ''FQDN'' ''FQDN'' (name st) s2 of
                               (Inl err, s3) \<Rightarrow> (Some err, s3)
                             | (Inr since, s3) \<Rightarrow>
                                 (case AssetMonitoredWithinTTL (EAsset e) src since s3 of
                                    (fresh, s4) \<Rightarrow>
                                      (case (if fresh
                                             then securityTrails_lookup st w e fqdn src since s4
                                             else (case securityTrails_query st w e fqdn src keys s4 of
                                                     (ns, s5) \<Rightarrow>
                                                       (ns, MarkAssetMonitored w (EAsset e) src s5))) of
                                         (names, s6) \<Rightarrow>
                                           if length names > 0
                                           then (None, securityTrails_process st e names src s6)
                                           else (None, s6)))))))
      | _ \<Rightarrow> (Some (ErrorNew ''failed to extract the FQDN asset''), s))"

subsection \<open>The autnum handler of the RDAP plugin\<close>

text \<open>
  \<^verbatim>\<open>config.CheckTransformations\<close>: \<open>None\<close> when \<^verbatim>\<open>err != nil\<close>, else the matches.
\<close>

definition CheckTransformations ::
  "world \<Rightarrow> string \<Rightarrow> string list \<Rightarrow> st \<Rightarrow> matches option \<times> st" where
  "CheckTransformations w from tos s =
     (w_transformations w from tos, emit (E_CheckTransformations from tos) s)"

text \<open>\<^verbatim>\<open>e.Session.Done()\<close>.\<close>

definition Done :: "world \<Rightarrow> st \<Rightarrow> bool \<times> st" where
  "Done w s = (w_done w, emit (E_Done (w_done w)) s)"

text \<open>The zero value \<^verbatim>\<open>time.Time{}\<close>.\<close>

definition zero_time :: time where
  "zero_time = 0"

text \<open>
  The graph store \<^verbatim>\<open>e.Session.DB()\<close>: \<open>None\<close> stands for \<^verbatim>\<open>err != nil\<close> (and,
  for \<^verbatim>\<open>Create\<close>, for a nil asset too).
\<close>

definition OutgoingRelations ::
  "world \<Rightarrow> dbt_asset \<Rightarrow> time \<Rightarrow> string list \<Rightarrow> st \<Rightarrow> dbt_relation list option \<times> st" where
  "OutgoingRelations w a since rtypes s =
     (w_outgoing w a since rtypes, emit (E_DB (DB_OutgoingRelations a since rtypes)) s)"

definition FindById :: "world \<Rightarrow> string \<Rightarrow> time \<Rightarrow> st \<Rightarrow> dbt_asset option \<times> st" where
  "FindById w i since s = (w_find_by_id w i since, emit (E_DB (DB_FindById i since)) s)"

definition Create :: "world \<Rightarrow> dbt_asset \<Rightarrow> string \<Rightarrow> oam_asset \<Rightarrow> st \<Rightarrow> dbt_asset option \<times> st" where
  "Create w a rel x s = (w_create w a rel x, emit (E_DB (DB_Create a rel x)) s)"

definition Link :: "world \<Rightarrow> dbt_asset \<Rightarrow> string \<Rightarrow> dbt_asset \<Rightarrow> st \<Rightarrow> st" where
  "Link w a rel b s = emit (E_DB (DB_Link a rel b)) s"

text \<open>
  Modelled from the spec: \<^verbatim>\<open>support.AppendToDBQueue\<close> is missing from the sources.
  The closure submitted is run to completion exactly once, and the caller, which waits
  on the channel \<^verbatim>\<open>done\<close>, goes on after it. \<open>None\<close> is a panic in the closure.
\<close>

definition AppendToDBQueue :: "(st \<Rightarrow> ('a \<times> st) option) \<Rightarrow> st \<Rightarrow> ('a \<times> st) option" where
  "AppendToDBQueue f s =
     (case f (emit E_AppendToDBQueue s) of
        None \<Rightarrow> None
      | Some (r, s') \<Rightarrow> Some (r, emit E_QueueDone s'))"

text \<open>\<^verbatim>\<open>rdapPlugin.storeEntity\<close>, which is missing from the sources: its findings.\<close>

definition storeEntity :: "world \<Rightarrow> string \<Rightarrow> st \<Rightarrow> finding list \<times> st" where
  "storeEntity w entity s = (w_storeEntity w entity, emit (E_storeEntity entity) s)"

definition ProcessAssetsWithSource ::
  "finding list \<Rightarrow> dbt_asset \<Rightarrow> string \<Rightarrow> string \<Rightarrow> st \<Rightarrow> st" where
  "ProcessAssetsWithSource findings src pname hname s =
     emit (E_ProcessAssetsWithSource findings src pname hname) s"

record autnum =
  a_name :: string
  a_plugin :: plugin
  transforms :: "string list"

text \<open>The loop of \<^verbatim>\<open>oneOfSources\<close> over the relations.\<close>

fun autnum_source_rels :: "dbt_relation list \<Rightarrow> dbt_asset \<Rightarrow> bool" where
  "autnum_source_rels [] src = False"
| "autnum_source_rels (rel # rels) src =
     (if ID (ToAsset rel) = ID src then True else autnum_source_rels rels src)"

definition autnum_oneOfSources ::
  "autnum \<Rightarrow> world \<Rightarrow> event \<Rightarrow> dbt_asset \<Rightarrow> dbt_asset \<Rightarrow> time \<Rightarrow> st \<Rightarrow> bool \<times> st" where
  "autnum_oneOfSources r w e asset src since s =
     (case OutgoingRelations w asset since [''source''] s of
        (Some rels, s1) \<Rightarrow>
          if length rels > 0 then (autnum_source_rels rels src, s1) else (False, s1)
      | (None, s1) \<Rightarrow> (False, s1))"

text \<open>
  The first loop of \<^verbatim>\<open>lookup\<close>, over the transforms: the relation types to read and
  the start time of each asset type. A type with no match or with no TTL is skipped
  (\<^verbatim>\<open>continue\<close>).
\<close>

fun autnum_sinces ::
  "autnum \<Rightarrow> world \<Rightarrow> matches \<Rightarrow> string list \<Rightarrow> string list \<Rightarrow> (string \<Rightarrow> time option) \<Rightarrow> st
     \<Rightarrow> (string list \<times> (string \<Rightarrow> time option)) \<times> st" where
  "autnum_sinces r w m [] rtypes sinces s = ((rtypes, sinces), s)"
| "autnum_sinces r w m (atype # atypes) rtypes sinces s =
     (if \<not> IsMatch m atype then autnum_sinces r w m atypes rtypes sinces s
      else
        (case TTLStartTime w ''AutnumRecord'' atype (name (a_plugin r)) s of
           (Inl err, s1) \<Rightarrow> autnum_sinces r w m atypes rtypes sinces s1
         | (Inr since, s1) \<Rightarrow>
             autnum_sinces r w m atypes
               (if atype = ''URL'' then rtypes @ [''rdap_url'']
                else if atype = ''FQDN'' then rtypes @ [''whois_server'']
                else if atype = ''ContactRecord''
                then rtypes @ [''registrant'', ''admin_contact'', ''abuse_contact'',
                               ''technical_contact'']
                else rtypes)
               (sinces(atype \<mapsto> since)) s1))"

text \<open>
  The loop of the closure of \<^verbatim>\<open>lookup\<close> over the relations read. \<open>None\<close> is the
  panic of \<^verbatim>\<open>asset.Asset.(*oamreg.AutnumRecord)\<close>.
\<close>

fun autnum_rels ::
  "autnum \<Rightarrow> world \<Rightarrow> event \<Rightarrow> dbt_asset \<Rightarrow> dbt_asset \<Rightarrow> (string \<Rightarrow> time option)
     \<Rightarrow> dbt_relation list \<Rightarrow> finding list \<Rightarrow> st \<Rightarrow> (finding list \<times> st) option" where
  "autnum_rels r w e asset src sinces [] findings s = Some (findings, s)"
| "autnum_rels r w e asset src sinces (rel # rels) findings s =
     (case FindById w (ID (ToAsset rel)) zero_time s of
        (None, s1) \<Rightarrow> autnum_rels r w e asset src sinces rels findings s1
      | (Some a, s1) \<Rightarrow>
          (case sinces (AssetType (Asset a)) of
             None \<Rightarrow> autnum_rels r w e asset src sinces rels findings s1
           | Some since \<Rightarrow>
               if LastSeen a < since then autnum_rels r w e asset src sinces rels findings s1
               else
                 (case autnum_oneOfSources r w e a src since s1 of
                    (False, s2) \<Rightarrow> autnum_rels r w e asset src sinces rels findings s2
                  | (True, s2) \<Rightarrow>
                      (case (case Asset a of
                               FQDN v \<Rightarrow> Some v
                             | ContactRecord v \<Rightarrow> Some (''ContactRecord: '' @ v)
                             | URL v \<Rightarrow> Some v
                             | _ \<Rightarrow> None) of
                         None \<Rightarrow> autnum_rels r w e asset src sinces rels findings s2
                       | Some nm \<Rightarrow>
                           (case Asset asset of
                              AutnumRecord handle ws \<Rightarrow>
                                autnum_rels r w e asset src sinces rels
                                  (findings @
                                     [\<lparr>From = asset, FromName = ''AutnumRecord: '' @ handle,
                                       To = a, ToName = nm, Rel = Type rel\<rparr>]) s2
                            | _ \<Rightarrow> None)))))"

text \<open>The closure that \<^verbatim>\<open>lookup\<close> gives to the queue.\<close>

definition autnum_lookup_closure ::
  "autnum \<Rightarrow> world \<Rightarrow> event \<Rightarrow> dbt_asset \<Rightarrow> dbt_asset \<Rightarrow> string list \<Rightarrow> (string \<Rightarrow> time option)
     \<Rightarrow> st \<Rightarrow> (finding list \<times> st) option" where
  "autnum_lookup_closure r w e asset src rtypes sinces s =
     (case Done w s of
        (True, s0) \<Rightarrow> Some ([], s0)
      | (False, s0) \<Rightarrow>
          (case OutgoingRelations w asset zero_time rtypes s0 of
             (Some rels, s1) \<Rightarrow>
               if length rels > 0 then autnum_rels r w e asset src sinces rels [] s1
               else Some ([], s1)
           | (None, s1) \<Rightarrow> Some ([], s1)))"

definition autnum_lookup ::
  "autnum \<Rightarrow> world \<Rightarrow> event \<Rightarrow> dbt_asset \<Rightarrow> dbt_asset \<Rightarrow> matches \<Rightarrow> st
     \<Rightarrow> (finding list \<times> st) option" where
  "autnum_lookup r w e asset src m s =
     (case autnum_sinces r w m (transforms r) [] Map.empty s of
        ((rtypes, sinces), s1) \<Rightarrow>
          AppendToDBQueue (autnum_lookup_closure r w e asset src rtypes sinces) s1)"

text \<open>The closure that \<^verbatim>\<open>store\<close> gives to the queue.\<close>

definition autnum_store_closure ::
  "autnum \<Rightarrow> world \<Rightarrow> event \<Rightarrow> rdap_autnum \<Rightarrow> dbt_asset \<Rightarrow> dbt_asset \<Rightarrow> matches
     \<Rightarrow> string \<Rightarrow> string \<Rightarrow> st \<Rightarrow> (finding list \<times> st) option" where
  "autnum_store_closure r w e resp asset src m handle whois s =
     (case Done w s of
        (True, s0) \<Rightarrow> Some ([], s0)
      | (False, s0) \<Rightarrow>
          (case (case w_getJSONLink w (Links resp) of
                   None \<Rightarrow> ([], s0)
                 | Some u \<Rightarrow>
                     if IsMatch m ''URL'' then
                       (case Create w asset ''rdap_url'' (URL u) s0 of
                          (None, s1) \<Rightarrow> ([], s1)
                        | (Some a, s1) \<Rightarrow>
                            ([\<lparr>From = asset, FromName = ''AutnumRecord: '' @ handle,
                               To = a, ToName = u, Rel = ''rdap_url''\<rparr>],
                             Link w a ''source'' src s1))
                     else ([], s0)) of
             (findings, s2) \<Rightarrow>
               if whois \<noteq> [] \<and> IsMatch m ''FQDN'' then
                 (case Create w asset ''whois_server'' (FQDN whois) s2 of
                    (None, s3) \<Rightarrow> Some (findings, s3)
                  | (Some a, s3) \<Rightarrow>
                      (case IsAssetInScope w (FQDN whois) (Link w a ''source'' src s3) of
                         ((c, conf), s4) \<Rightarrow>
                           if conf > 0
                           then Some (findings @
                                   [\<lparr>From = asset, FromName = ''AutnumRecord: '' @ handle,
                                     To = a, ToName = whois, Rel = ''whois_server''\<rparr>], s4)
                           else Some (findings, s4)))
               else Some (findings, s2)))"

text \<open>The loop of \<^verbatim>\<open>store\<close> over the entities of the response.\<close>

fun autnum_entities :: "world \<Rightarrow> string list \<Rightarrow> finding list \<Rightarrow> st \<Rightarrow> finding list \<times> st" where
  "autnum_entities w [] findings s = (findings, s)"
| "autnum_entities w (entity # entities) findings s =
     (case storeEntity w entity s of
        (fs, s1) \<Rightarrow> autnum_entities w entities (findings @ fs) s1)"

definition autnum_store ::
  "autnum \<Rightarrow> world \<Rightarrow> event \<Rightarrow> rdap_autnum \<Rightarrow> dbt_asset \<Rightarrow> dbt_asset \<Rightarrow> matches \<Rightarrow> st
     \<Rightarrow> (finding list \<times> st) option" where
  "autnum_store r w e resp asset src m s =
     (case Asset asset of
        AutnumRecord handle whois \<Rightarrow>
          (case AppendToDBQueue (autnum_store_closure r w e resp asset src m handle whois) s of
             None \<Rightarrow> None
           | Some (findings, s1) \<Rightarrow>
               if IsMatch m ''ContactRecord''
               then Some (autnum_entities w (Entities resp) findings s1)
               else Some (findings, s1))
      | _ \<Rightarrow> None)"

definition autnum_process :: "autnum \<Rightarrow> event \<Rightarrow> finding list \<Rightarrow> dbt_asset \<Rightarrow> st \<Rightarrow> st" where
  "autnum_process r e findings src s =
     ProcessAssetsWithSource findings src (name (a_plugin r)) (a_name r) s"

definition autnum_check :: "autnum \<Rightarrow> world \<Rightarrow> event \<Rightarrow> st \<Rightarrow> error option \<times> st" where
  "autnum_check r w e s =
     (case Asset (EAsset e) of
        AutnumRecord handle whois \<Rightarrow>
          (case GetSource w (psource (a_plugin r)) s of
             (None, s1) \<Rightarrow>
               (Some (ErrorNew ''failed to obtain the plugin source information''), s1)
           | (Some src, s1) \<Rightarrow>
               (case CheckTransformations w ''AutnumRecord''
                       (transforms r @ [name (a_plugin r)]) s1 of
                  (None, s2) \<Rightarrow> (None, s2)
                | (Some m, s2) \<Rightarrow>
                    if Len m = 0 then (None, s2)
                    else
                      (case (case EMeta e of
                               AutnumMeta record \<Rightarrow> autnum_store r w e record (EAsset e) src m s2
                             | _ \<Rightarrow> autnum_lookup r w e (EAsset e) src m s2) of
                         None \<Rightarrow> (Some Panic, s2)
                       | Some (findings, s3) \<Rightarrow>
                           if length findings > 0
                           then (None, autnum_process r e findings src s3)
                           else (None, s3))))
      | _ \<Rightarrow> (Some (ErrorNew ''failed to extract the AutnumRecord asset''), s))"

section \<open>Reading a trace\<close>

text \<open>The web requests of a trace, with their answers.\<close>

fun requests :: "effect list \<Rightarrow> (request \<times> string option) list" where
  "requests [] = []"
| "requests (E_RequestWebPage r resp # xs) = (r, resp) # requests xs"
| "requests (x # xs) = requests xs"

text \<open>The number of acquisitions of a rate limiter.\<close>

fun takes :: "effect list \<Rightarrow> nat" where
  "takes [] = 0"
| "takes (E_Take n # xs) = Suc (takes xs)"
| "takes (x # xs) = takes xs"

text \<open>The lists of names handed to the store step.\<close>

fun stored :: "effect list \<Rightarrow> string list list" where
  "stored [] = []"
| "stored (E_StoreFQDNsWithSource names src p h # xs) = names # stored xs"
| "stored (x # xs) = stored xs"

text \<open>The assets handed to the scope filter.\<close>

fun scope_checks :: "effect list \<Rightarrow> oam_asset list" where
  "scope_checks [] = []"
| "scope_checks (E_IsAssetInScope a # xs) = a # scope_checks xs"
| "scope_checks (x # xs) = scope_checks xs"

text \<open>The operations of the graph store.\<close>

fun db_calls :: "effect list \<Rightarrow> db_call list" where
  "db_calls [] = []"
| "db_calls (E_DB c # xs) = c # db_calls xs"
| "db_calls (x # xs) = db_calls xs"

text \<open>An answer that a scraper or an API plugin goes on with: no error and a body.\<close>

fun nonempty :: "string option \<Rightarrow> bool" where
  "nonempty None = False"
| "nonempty (Some body) = (body \<noteq> [])"

section \<open>The common shape of the five handlers of FQDN events\<close>

text \<open>
  The \<^verbatim>\<open>check\<close> methods of DuckDuckGo, SiteDossier, crt.sh, Chaos and SecurityTrails
  differ in the name, the source and the query step only. \<open>pipeline\<close> is their common
  text from the scope check on; each method is shown equal to its instance below, so
  that a property of the shape is proved once.
\<close>

definition pipeline ::
  "world \<Rightarrow> string \<Rightarrow> source \<Rightarrow> (string \<Rightarrow> dbt_asset \<Rightarrow> st \<Rightarrow> dbt_asset list \<times> st)
     \<Rightarrow> event \<Rightarrow> string \<Rightarrow> st \<Rightarrow> error option \<times> st" where
  "pipeline w pname so query e fqdn s =
     (case IsAssetInScope w (FQDN fqdn) s of
        ((a, conf), s1) \<Rightarrow>
          if conf = 0 \<or> a = None then (None, s1)
          else if (case a of Some (FQDN f) \<Rightarrow> \<not> w_EqualFold w fqdn f | _ \<Rightarrow> True)
          then (None, s1)
          else
            (case GetSource w so s1 of
               (None, s2) \<Rightarrow>
                 (Some (ErrorNew ''failed to obtain the plugin source information''), s2)
             | (Some src, s2) \<Rightarrow>
                 (case TTLStartTime w ''FQDN'' ''FQDN'' pname s2 of
                    (Inl err, s3) \<Rightarrow> (Some err, s3)
                  | (Inr since, s3) \<Rightarrow>
                      (case AssetMonitoredWithinTTL (EAsset e) src since s3 of
                         (fresh, s4) \<Rightarrow>
                           (case (if fresh then SourceToAssetsWithinTTL w fqdn ''FQDN'' src since s4
                                  else (case query fqdn src s4 of
                                          (ns, s5) \<Rightarrow>
                                            (ns, MarkAssetMonitored w (EAsset e) src s5))) of
                              (names, s6) \<Rightarrow>
                                if length names > 0
                                then (None, ProcessFQDNsWithSource names src s6)
                                else (None, s6))))))"

text \<open>
  The subject passes the scope check of the handlers: the scope filter gives a
  confidence other than 0 and an FQDN that equals the subject's name up to case.
\<close>

definition passes_scope :: "world \<Rightarrow> string \<Rightarrow> bool" where
  "passes_scope w fqdn =
     (case w_scope w (FQDN fqdn) of
        (Some (FQDN f), conf) \<Rightarrow> conf \<noteq> 0 \<and> w_EqualFold w fqdn f
      | _ \<Rightarrow> False)"

text \<open>
  The reuse path: the state after an invocation that finds the subject freshly
  monitored. It reads the graph and dispatches what it read; \<open>d\<close> is the TTL.
\<close>

definition reuse_path ::
  "world \<Rightarrow> string \<Rightarrow> source \<Rightarrow> event \<Rightarrow> string \<Rightarrow> dbt_asset \<Rightarrow> int \<Rightarrow> st \<Rightarrow> st" where
  "reuse_path w pname so e fqdn src d s =
     s\<lparr>trace := trace s @
        [E_IsAssetInScope (FQDN fqdn), E_GetSource so, E_TTLStartTime ''FQDN'' ''FQDN'' pname,
         E_AssetMonitoredWithinTTL (EAsset e) src (w_now w - d),
         E_SourceToAssetsWithinTTL fqdn ''FQDN'' src (w_now w - d)] @
        (if w_assets_within_ttl w fqdn ''FQDN'' src (w_now w - d) = [] then []
         else [E_ProcessFQDNsWithSource
                 (w_assets_within_ttl w fqdn ''FQDN'' src (w_now w - d)) src])\<rparr>"

text \<open>The state in which \<^verbatim>\<open>check\<close> reaches its branch on the freshness of the subject.\<close>

definition at_branch ::
  "world \<Rightarrow> string \<Rightarrow> source \<Rightarrow> event \<Rightarrow> string \<Rightarrow> dbt_asset \<Rightarrow> int \<Rightarrow> st \<Rightarrow> st" where
  "at_branch w pname so e fqdn src d s =
     s\<lparr>trace := trace s @
        [E_IsAssetInScope (FQDN fqdn), E_GetSource so, E_TTLStartTime ''FQDN'' ''FQDN'' pname,
         E_AssetMonitoredWithinTTL (EAsset e) src (w_now w - d)]\<rparr>"

text \<open>The end of the other branch: after the query step, the mark and the dispatch.\<close>

definition after_query :: "world \<Rightarrow> event \<Rightarrow> dbt_asset \<Rightarrow> dbt_asset list \<times> st \<Rightarrow> st" where
  "after_query w e src q =
     (if length (fst q) > 0
      then ProcessFQDNsWithSource (fst q) src (MarkAssetMonitored w (EAsset e) src (snd q))
      else MarkAssetMonitored w (EAsset e) src (snd q))"

text \<open>
  The pages that SiteDossier has fetched, from page \<open>i\<close> on: consecutive pages, below
  page 20, each but the last with a body, and the last without one unless page 19 was
  reached.
\<close>

definition pages_ok :: "plugin \<Rightarrow> string \<Rightarrow> nat \<Rightarrow> (request \<times> string option) list \<Rightarrow> bool" where
  "pages_ok sd nm i rs =
     (i + length rs \<le> 20 \<and>
      map fst rs = map (siteDossier_request sd nm) [i..<i + length rs] \<and>
      (\<forall>j < length rs - 1. nonempty (snd (rs ! j))) \<and>
      (i + length rs < 20 \<longrightarrow> rs \<noteq> [] \<and> \<not> nonempty (snd (last rs))))"

text \<open>The names that a scraper keeps: normalized, then accepted by the scope filter.\<close>

definition kept :: "world \<Rightarrow> string list \<Rightarrow> string list" where
  "kept w ns =
     filter (\<lambda>x. snd (w_scope w (FQDN x)) > 0) (map (\<lambda>n. w_ToLower w (w_TrimSpace w n)) ns)"

text \<open>
  The names that crt.sh keeps from the lines of a certificate: each line normalized, then
  accepted by the scope filter, in order and as often as it occurs.
\<close>

definition kept_lines :: "world \<Rightarrow> string list \<Rightarrow> string list" where
  "kept_lines w ns =
     filter (\<lambda>x. snd (w_scope w (FQDN x)) > 0)
       (map (\<lambda>n. w_ToLower w (w_TrimSpace w (w_RemoveAsteriskLabel w n))) ns)"

text \<open>An answer that ends the loop of SecurityTrails over the keys: a body that parses.\<close>

definition parseable :: "world \<Rightarrow> string option \<Rightarrow> bool" where
  "parseable w resp =
     (case resp of None \<Rightarrow> False | Some body \<Rightarrow> body \<noteq> [] \<and> w_Unmarshal_subdomains w body \<noteq> None)"

text \<open>The bodies of the answers that a scraper goes on with, in the order of the requests.\<close>

fun bodies :: "(request \<times> string option) list \<Rightarrow> string list" where
  "bodies [] = []"
| "bodies ((r, None) # rs) = bodies rs"
| "bodies ((r, Some body) # rs) = (if body = [] then bodies rs else body # bodies rs)"





section \<open>An example session\<close>

text \<open>
  On strings of ASCII, \<^verbatim>\<open>strings.ToLower\<close>, \<^verbatim>\<open>strings.TrimSpace\<close> and
  \<^verbatim>\<open>strings.EqualFold\<close> are the following functions; the examples use ASCII only.
\<close>

definition ascii_lower :: "char \<Rightarrow> char" where
  "ascii_lower c =
     (case map_of (zip ''ABCDEFGHIJKLMNOPQRSTUVWXYZ'' ''abcdefghijklmnopqrstuvwxyz'') c of
        None \<Rightarrow> c
      | Some l \<Rightarrow> l)"

definition ascii_ToLower :: "string \<Rightarrow> string" where
  "ascii_ToLower s = map ascii_lower s"

definition ascii_space :: "char \<Rightarrow> bool" where
  "ascii_space c = (c \<in> set [CHR 0x09, CHR 0x0A, CHR 0x0B, CHR 0x0C, CHR 0x0D, CHR '' ''])"

definition ascii_TrimSpace :: "string \<Rightarrow> string" where
  "ascii_TrimSpace s = rev (dropWhile ascii_space (rev (dropWhile ascii_space s)))"

definition ascii_EqualFold :: "string \<Rightarrow> string \<Rightarrow> bool" where
  "ascii_EqualFold x y = (ascii_ToLower x = ascii_ToLower y)"

text \<open>The scope of the example: four names under \<^verbatim>\<open>example.com\<close>, whatever their case.\<close>

definition example_scope :: "oam_asset \<Rightarrow> oam_asset option \<times> int" where
  "example_scope a =
     (case a of
        FQDN n \<Rightarrow>
          if ascii_ToLower n \<in> set [''example.com'', ''a.example.com'', ''www.example.com'',
                                   ''api.example.com'']
          then (Some (FQDN (ascii_ToLower n)), 100)
          else (None, 0)
      | _ \<Rightarrow> (None, 0))"

definition example_node :: "string \<Rightarrow> dbt_asset" where
  "example_node n = \<lparr>ID = n, LastSeen = 10001, Asset = FQDN n\<rparr>"

definition example_source :: "source \<Rightarrow> dbt_asset option" where
  "example_source so = Some \<lparr>ID = Name so, LastSeen = 0, Asset = OtherAsset ''Source''\<rparr>"

text \<open>
  The example world: the time is 10000, every TTL is 60, two API keys are configured
  for every source, every web request fails, and the graph holds no names. The names of
  the examples carry no asterisk label. The examples change single fields of it.
\<close>

definition example_world :: world where
  "example_world =
     \<lparr>w_scope = example_scope,
      w_creds = (\<lambda>n. Some [Some ''key1'', None, Some ''key2'']),
      w_source = example_source,
      w_ttl = (\<lambda>from to n. Some 60),
      w_now = 10000,
      w_marktime = 10001,
      w_http = (\<lambda>i r. None),
      w_assets_within_ttl = (\<lambda>n t src since. []),
      w_store_fqdns = (\<lambda>names src p h. map example_node names),
      w_EqualFold = ascii_EqualFold,
      w_ToLower = ascii_ToLower,
      w_TrimSpace = ascii_TrimSpace,
      w_RemoveAsteriskLabel = (\<lambda>n. n),
      w_ScrapeSubdomainNames = (\<lambda>body. []),
      w_Unmarshal_subdomains = (\<lambda>body. None),
      w_Unmarshal_certs = (\<lambda>body. None),
      w_transformations = (\<lambda>from tos. Some \<lparr>IsMatch = (\<lambda>t. True), Len = 3\<rparr>),
      w_done = False,
      w_outgoing = (\<lambda>a since rtypes. Some []),
      w_find_by_id = (\<lambda>i since. None),
      w_create = (\<lambda>a rel x. None),
      w_getJSONLink = (\<lambda>links. None),
      w_storeEntity = (\<lambda>entity. [])\<rparr>"

definition s0 :: st where
  "s0 = \<lparr>edges = Map.empty, nreq = 0, trace = []\<rparr>"

text \<open>The subject \<^verbatim>\<open>example.com\<close>, and a subject out of scope.\<close>

definition subject0 :: dbt_asset where
  "subject0 = \<lparr>ID = ''1'', LastSeen = 0, Asset = FQDN ''example.com''\<rparr>"

definition event0 :: event where
  "event0 = \<lparr>EAsset = subject0, EMeta = NoMeta\<rparr>"

definition event_out :: event where
  "event_out = \<lparr>EAsset = \<lparr>ID = ''2'', LastSeen = 0, Asset = FQDN ''other.org''\<rparr>, EMeta = NoMeta\<rparr>"

text \<open>The node of a source in the example.\<close>

definition source_node :: "string \<Rightarrow> dbt_asset" where
  "source_node n = \<lparr>ID = n, LastSeen = 0, Asset = OtherAsset ''Source''\<rparr>"

text \<open>A state in which the subject has an edge of time 9990 to the source with the given name.\<close>

definition s_monitored :: "string \<Rightarrow> st" where
  "s_monitored n = \<lparr>edges = [(''1'', n) \<mapsto> 9990], nreq = 0, trace = []\<rparr>"

text \<open>
  The three raw values of the deduplication example, and a world in which the web
  answers with a page from which they are scraped, or with a certificate that lists
  them on three lines.
\<close>

definition raw_values :: "string list" where
  "raw_values = [''a.example.com'', ''A.example.com'', '' a.example.com '']"

definition world_scraped :: world where
  "world_scraped =
     example_world\<lparr>w_http := (\<lambda>i r. if i = 0 then Some ''page'' else Some []),
                   w_ScrapeSubdomainNames := (\<lambda>body. if body = ''page'' then raw_values else [])\<rparr>"

definition world_certs :: world where
  "world_certs =
     example_world\<lparr>w_http := (\<lambda>i r. Some ''[cert]''),
                   w_Unmarshal_certs :=
                     (\<lambda>body. Some [''a.example.com'' @ [CHR 0x0A] @ ''A.example.com'' @ [CHR 0x0A]
                                     @ '' a.example.com ''])\<rparr>"

text \<open>A world in which the API answers to every key with the subdomain \<^verbatim>\<open>WWW\<close>.\<close>

definition world_api :: world where
  "world_api =
     example_world\<lparr>w_http := (\<lambda>i r. Some ''answer''),
                   w_Unmarshal_subdomains := (\<lambda>body. Some [''WWW''])\<rparr>"


definition world_done :: world where
  "world_done = example_world\<lparr>w_done := True\<rparr>"

text \<open>A later world: the time is 10050, within the TTL of 60 after a mark at 10001.\<close>

definition world_later :: world where
  "world_later = example_world\<lparr>w_now := 10050, w_marktime := 10051\<rparr>"

text \<open>An autnum handler, an autnum record as subject and an RDAP response.\<close>

definition example_autnum :: autnum where
  "example_autnum =
     \<lparr>a_name = ''RDAP-Autnum-Handler'',
      a_plugin = \<lparr>name = ''RDAP'', fmtstr = [], rlimit = 0,
                  psource = \<lparr>Name = ''RDAP'', Confidence = 100\<rparr>\<rparr>,
      transforms = [''URL'', ''FQDN'', ''ContactRecord'']\<rparr>"

definition subject_as :: dbt_asset where
  "subject_as = \<lparr>ID = ''3'', LastSeen = 0, Asset = AutnumRecord ''AS64500'' ''whois.example.com''\<rparr>"

definition event_as :: event where
  "event_as = \<lparr>EAsset = subject_as, EMeta = NoMeta\<rparr>"

definition example_response :: rdap_autnum where
  "example_response = \<lparr>Links = [], Entities = []\<rparr>"

text \<open>
  A world whose scope is empty, whose graph store creates every asset asked for, and in
  which the RDAP response has a link; and the event of the autnum record with that
  response.
\<close>

definition world_rdap :: world where
  "world_rdap =
     example_world\<lparr>w_scope := (\<lambda>a. (None, 0)),
                   w_create := (\<lambda>a rel x. Some \<lparr>ID = rel, LastSeen = 10001, Asset = x\<rparr>),
                   w_getJSONLink := (\<lambda>links. Some ''https://rdap.example.net/autnum/64500'')\<rparr>"

definition event_rdap :: event where
  "event_rdap = \<lparr>EAsset = subject_as, EMeta = AutnumMeta example_response\<rparr>"




section \<open>Properties\<close>

lemma requests_append: "requests (xs @ ys) = requests xs @ requests ys"
  by (induction xs rule: requests.induct) auto

lemma takes_append: "takes (xs @ ys) = takes xs + takes ys"
  by (induction xs rule: takes.induct) auto

lemma stored_append: "stored (xs @ ys) = stored xs @ stored ys"
  by (induction xs rule: stored.induct) auto

lemma scope_checks_append: "scope_checks (xs @ ys) = scope_checks xs @ scope_checks ys"
  by (induction xs rule: scope_checks.induct) auto

lemma db_calls_append: "db_calls (xs @ ys) = db_calls xs @ db_calls ys"
  by (induction xs rule: db_calls.induct) auto

subsection \<open>The handlers are instances of the common shape\<close>

lemma duckDuckGo_check_pipeline:
  "duckDuckGo_check d w e s =
     (case Asset (EAsset e) of
        FQDN fqdn \<Rightarrow> pipeline w (name d) (psource d) (duckDuckGo_query d w e) e fqdn s
      | _ \<Rightarrow> (Some (ErrorNew ''failed to extract the FQDN asset''), s))"
  unfolding duckDuckGo_check_def pipeline_def duckDuckGo_lookup_def duckDuckGo_process_def
  by (rule refl)

lemma siteDossier_check_pipeline:
  "siteDossier_check d w e s =
     (case Asset (EAsset e) of
        FQDN fqdn \<Rightarrow> pipeline w (name d) (psource d) (siteDossier_query d w e) e fqdn s
      | _ \<Rightarrow> (Some (ErrorNew ''failed to extract the FQDN asset''), s))"
  unfolding siteDossier_check_def pipeline_def siteDossier_lookup_def siteDossier_process_def
  by (rule refl)

lemma crtsh_check_pipeline:
  "crtsh_check d w e s =
     (case Asset (EAsset e) of
        FQDN fqdn \<Rightarrow> pipeline w (name d) (psource d) (crtsh_query d w e) e fqdn s
      | _ \<Rightarrow> (Some (ErrorNew ''failed to extract the FQDN asset''), s))"
  unfolding crtsh_check_def pipeline_def crtsh_lookup_def crtsh_process_def
  by (rule refl)

lemma chaos_check_pipeline:
  "chaos_check c w e s =
     (case Asset (EAsset e) of
        FQDN fqdn \<Rightarrow>
          (case w_creds w (name c) of
             None \<Rightarrow> (None, s)
           | Some creds \<Rightarrow>
               if creds = [] then (None, s)
               else pipeline w (name c) (psource c)
                      (\<lambda>nm src. chaos_query c w e nm src (apikeys creds)) e fqdn s)
      | _ \<Rightarrow> (Some (ErrorNew ''failed to extract the FQDN asset''), s))"
  unfolding chaos_check_def pipeline_def chaos_lookup_def chaos_process_def Let_def
  by (simp split: oam_asset.splits option.splits)

lemma securityTrails_check_pipeline:
  "securityTrails_check c w e s =
     (case Asset (EAsset e) of
        FQDN fqdn \<Rightarrow>
          (case w_creds w (name c) of
             None \<Rightarrow> (None, s)
           | Some creds \<Rightarrow>
               if creds = [] then (None, s)
               else pipeline w (name c) (psource c)
                      (\<lambda>nm src. securityTrails_query c w e nm src (apikeys creds)) e fqdn s)
      | _ \<Rightarrow> (Some (ErrorNew ''failed to extract the FQDN asset''), s))"
  unfolding securityTrails_check_def pipeline_def securityTrails_lookup_def
    securityTrails_process_def Let_def
  by (simp split: oam_asset.splits option.splits)

lemmas check_pipeline =
  duckDuckGo_check_pipeline siteDossier_check_pipeline crtsh_check_pipeline
  chaos_check_pipeline securityTrails_check_pipeline

subsection \<open>The paths of the common shape\<close>

lemma pipeline_out_of_scope:
  assumes "w_scope w (FQDN n) = (a, conf)"
    and "conf = 0 \<or> a = None \<or> (case a of Some (FQDN f) \<Rightarrow> \<not> w_EqualFold w n f | _ \<Rightarrow> True)"
  shows "pipeline w pn so q e n s = (None, emit (E_IsAssetInScope (FQDN n)) s)"
  using assms unfolding pipeline_def IsAssetInScope_def by auto

lemma pipeline_no_source:
  assumes "passes_scope w n" and "w_source w so = None"
  shows "pipeline w pn so q e n s =
    (Some (ErrorNew ''failed to obtain the plugin source information''),
     s\<lparr>trace := trace s @ [E_IsAssetInScope (FQDN n), E_GetSource so]\<rparr>)"
  using assms
  unfolding pipeline_def passes_scope_def IsAssetInScope_def GetSource_def emit_def
  by (auto split: option.splits oam_asset.splits prod.splits)


lemma pipeline_fresh:
  assumes "passes_scope w n" and "w_source w so = Some src"
    and "w_ttl w ''FQDN'' ''FQDN'' pn = Some d"
    and "edges s (ID (EAsset e), ID src) = Some t" and "w_now w - d \<le> t"
  shows "pipeline w pn so q e n s = (None, reuse_path w pn so e n src d s)"
  using assms
  unfolding pipeline_def passes_scope_def IsAssetInScope_def GetSource_def TTLStartTime_def
    AssetMonitoredWithinTTL_def SourceToAssetsWithinTTL_def ProcessFQDNsWithSource_def emit_def
    reuse_path_def
  by (auto split: option.splits oam_asset.splits prod.splits)

lemma pipeline_stale:
  assumes "passes_scope w n" and "w_source w so = Some src"
    and "w_ttl w ''FQDN'' ''FQDN'' pn = Some d"
    and "case edges s (ID (EAsset e), ID src) of None \<Rightarrow> True | Some t \<Rightarrow> t < w_now w - d"
  shows "pipeline w pn so q e n s =
    (None, after_query w e src (q n src (at_branch w pn so e n src d s)))"
  using assms
  unfolding pipeline_def passes_scope_def IsAssetInScope_def GetSource_def TTLStartTime_def
    AssetMonitoredWithinTTL_def emit_def at_branch_def after_query_def
  by (auto split: option.splits oam_asset.splits prod.splits)

lemma reuse_path_frame:
  "requests (trace (reuse_path w pn so e n src d s)) = requests (trace s)"
  "takes (trace (reuse_path w pn so e n src d s)) = takes (trace s)"
  "stored (trace (reuse_path w pn so e n src d s)) = stored (trace s)"
  "nreq (reuse_path w pn so e n src d s) = nreq s"
  "edges (reuse_path w pn so e n src d s) = edges s"
  by (simp_all add: reuse_path_def requests_append takes_append stored_append)

text \<open>
  C1, as amended. The handlers of FQDN events (DuckDuckGo, SiteDossier, crt.sh, Chaos,
  SecurityTrails) ask the scope filter about the FQDN of the subject.
  An event whose subject it rejects (confidence 0 or no canonical asset), or for which it
  returns an asset that is not an FQDN equal up to case to the subject's name, ends each
  of these handlers with a nil error; the only effect is the call of the scope filter
  itself (and not even that for Chaos and SecurityTrails without credentials): no rate
  limiter, no request, no store, no mark, no findings.
\<close>

theorem C1_out_of_scope_is_noop:
  assumes "Asset (EAsset e) = FQDN n" and "w_scope w (FQDN n) = (a, conf)"
    and "conf = 0 \<or> a = None \<or> (case a of Some (FQDN f) \<Rightarrow> \<not> w_EqualFold w n f | _ \<Rightarrow> True)"
  shows "duckDuckGo_check p w e s = (None, emit (E_IsAssetInScope (FQDN n)) s) \<and>
         siteDossier_check p w e s = (None, emit (E_IsAssetInScope (FQDN n)) s) \<and>
         crtsh_check p w e s = (None, emit (E_IsAssetInScope (FQDN n)) s) \<and>
         chaos_check p w e s =
           (None, if w_creds w (name p) = None \<or> w_creds w (name p) = Some [] then s
                  else emit (E_IsAssetInScope (FQDN n)) s) \<and>
         securityTrails_check p w e s =
           (None, if w_creds w (name p) = None \<or> w_creds w (name p) = Some [] then s
                  else emit (E_IsAssetInScope (FQDN n)) s)"
  using assms(1) pipeline_out_of_scope[OF assms(2,3)]
  by (simp add: check_pipeline split: option.splits)

theorem C1_out_of_scope_witness:
  "Asset (EAsset event_out) = FQDN ''other.org'' \<and>
   w_scope example_world (FQDN ''other.org'') = (None, 0) \<and>
   duckDuckGo_check NewDuckDuckGo example_world event_out s0 =
     (None, emit (E_IsAssetInScope (FQDN ''other.org'')) s0) \<and>
   chaos_check NewChaos example_world event_out s0 =
     (None, emit (E_IsAssetInScope (FQDN ''other.org'')) s0) \<and>
   trace (emit (E_IsAssetInScope (FQDN ''other.org'')) s0) = [E_IsAssetInScope (FQDN ''other.org'')]"
proof -
  have a: "Asset (EAsset event_out) = FQDN ''other.org''"
    by (simp add: event_out_def)
  have b: "w_scope example_world (FQDN ''other.org'') = (None, 0)"
    by (simp add: example_world_def example_scope_def ascii_ToLower_def ascii_lower_def)
  have c: "(0::int) = 0 \<or> (None::oam_asset option) = None \<or>
           (case None of Some (FQDN f) \<Rightarrow> \<not> w_EqualFold example_world ''other.org'' f | _ \<Rightarrow> True)"
    by simp
  have d: "w_creds example_world (name NewChaos) \<noteq> None \<and> w_creds example_world (name NewChaos) \<noteq> Some []"
    by (simp add: example_world_def)
  show ?thesis
    using C1_out_of_scope_is_noop[OF a b c, of NewDuckDuckGo s0]
      C1_out_of_scope_is_noop[OF a b c, of NewChaos s0] a b d
    by (simp add: emit_def s0_def)
qed

text \<open>
  C3. When the subject is freshly monitored by the source, an invocation takes the
  reuse path: it reads the graph and dispatches what it read, with no web request, no
  acquisition of the rate limiter and no store step.
\<close>

theorem C3_fresh_subject_takes_reuse_path:
  assumes "Asset (EAsset e) = FQDN n" and "passes_scope w n"
    and "w_source w (psource p) = Some src"
    and "w_ttl w ''FQDN'' ''FQDN'' (name p) = Some d"
    and "edges s (ID (EAsset e), ID src) = Some t" and "w_now w - d \<le> t"
  shows "duckDuckGo_check p w e s = (None, reuse_path w (name p) (psource p) e n src d s) \<and>
         siteDossier_check p w e s = (None, reuse_path w (name p) (psource p) e n src d s) \<and>
         crtsh_check p w e s = (None, reuse_path w (name p) (psource p) e n src d s) \<and>
         chaos_check p w e s =
           (None, if w_creds w (name p) = None \<or> w_creds w (name p) = Some [] then s
                  else reuse_path w (name p) (psource p) e n src d s) \<and>
         securityTrails_check p w e s =
           (None, if w_creds w (name p) = None \<or> w_creds w (name p) = Some [] then s
                  else reuse_path w (name p) (psource p) e n src d s) \<and>
         requests (trace (reuse_path w (name p) (psource p) e n src d s)) = requests (trace s) \<and>
         takes (trace (reuse_path w (name p) (psource p) e n src d s)) = takes (trace s) \<and>
         stored (trace (reuse_path w (name p) (psource p) e n src d s)) = stored (trace s) \<and>
         edges (reuse_path w (name p) (psource p) e n src d s) = edges s"
  using assms(1) pipeline_fresh[OF assms(2-6)]
  by (simp add: check_pipeline reuse_path_frame split: option.splits)

theorem C3_fresh_subject_witness:
  "Asset (EAsset event0) = FQDN ''example.com'' \<and> passes_scope example_world ''example.com'' \<and>
   w_source example_world (psource NewSiteDossier) = Some (source_node ''SiteDossier'') \<and>
   w_ttl example_world ''FQDN'' ''FQDN'' (name NewSiteDossier) = Some 60 \<and>
   edges (s_monitored ''SiteDossier'') (ID (EAsset event0), ID (source_node ''SiteDossier'')) = Some 9990 \<and>
   w_now example_world - 60 \<le> 9990 \<and>
   fst (siteDossier_check NewSiteDossier example_world event0 (s_monitored ''SiteDossier'')) = None \<and>
   trace (snd (siteDossier_check NewSiteDossier example_world event0 (s_monitored ''SiteDossier''))) =
     [E_IsAssetInScope (FQDN ''example.com''), E_GetSource (psource NewSiteDossier),
      E_TTLStartTime ''FQDN'' ''FQDN'' ''SiteDossier'',
      E_AssetMonitoredWithinTTL subject0 (source_node ''SiteDossier'') 9940,
      E_SourceToAssetsWithinTTL ''example.com'' ''FQDN'' (source_node ''SiteDossier'') 9940]"
proof -
  have a: "Asset (EAsset event0) = FQDN ''example.com''"
    by (simp add: event0_def subject0_def)
  have b: "passes_scope example_world ''example.com''"
    by (simp add: passes_scope_def example_world_def example_scope_def ascii_EqualFold_def
        ascii_ToLower_def ascii_lower_def)
  have c: "w_source example_world (psource NewSiteDossier) = Some (source_node ''SiteDossier'')"
    by (simp add: example_world_def example_source_def NewSiteDossier_def source_node_def)
  have d: "w_ttl example_world ''FQDN'' ''FQDN'' (name NewSiteDossier) = Some 60"
    by (simp add: example_world_def)
  have e: "edges (s_monitored ''SiteDossier'') (ID (EAsset event0), ID (source_node ''SiteDossier'')) = Some 9990"
    by (simp add: s_monitored_def event0_def subject0_def source_node_def)
  have f: "w_now example_world - 60 \<le> 9990"
    by (simp add: example_world_def)
  show ?thesis
    using C3_fresh_subject_takes_reuse_path[OF a b c d e f] a b c d e f
    by (simp add: reuse_path_def example_world_def s_monitored_def NewSiteDossier_def event0_def)
qed

subsection \<open>The mark after the query step\<close>

lemma after_query_trace:
  "trace (after_query w e src q) =
     trace (snd q) @ E_MarkAssetMonitored (EAsset e) src #
       (if fst q = [] then [] else [E_ProcessFQDNsWithSource (fst q) src])"
  by (simp add: after_query_def MarkAssetMonitored_def ProcessFQDNsWithSource_def emit_def)

lemma after_query_edges:
  "edges (after_query w e src q) (ID (EAsset e), ID src) = Some (w_marktime w)"
  by (simp add: after_query_def MarkAssetMonitored_def ProcessFQDNsWithSource_def emit_def)

text \<open>
  C10. In the branch of a subject that is not freshly monitored, every handler ends with
  the query step followed by \<^verbatim>\<open>MarkAssetMonitored\<close>, whatever the query step
  returned (also nothing, after failed requests): the edge from the subject to the source
  then carries the time of the mark. An invocation that starts later from a state with
  that edge (or a younger one), at a time within the TTL after the mark, takes the reuse
  path, which makes no request.
\<close>

theorem C10_mark_after_any_query:
  assumes "Asset (EAsset e) = FQDN n"
    and "passes_scope w1 n" and "w_source w1 (psource p) = Some src"
    and "w_ttl w1 ''FQDN'' ''FQDN'' (name p) = Some d1"
    and "case edges s (ID (EAsset e), ID src) of None \<Rightarrow> True | Some t \<Rightarrow> t < w_now w1 - d1"
    and "passes_scope w2 n" and "w_source w2 (psource p) = Some src"
    and "w_ttl w2 ''FQDN'' ''FQDN'' (name p) = Some d2"
    and "edges s2 (ID (EAsset e), ID src) = Some t2" and "w_marktime w1 \<le> t2"
    and "w_now w2 - d2 \<le> w_marktime w1"
  shows "duckDuckGo_check p w1 e s =
           (None, after_query w1 e src
              (duckDuckGo_query p w1 e n src (at_branch w1 (name p) (psource p) e n src d1 s))) \<and>
         siteDossier_check p w1 e s =
           (None, after_query w1 e src
              (siteDossier_query p w1 e n src (at_branch w1 (name p) (psource p) e n src d1 s))) \<and>
         crtsh_check p w1 e s =
           (None, after_query w1 e src
              (crtsh_query p w1 e n src (at_branch w1 (name p) (psource p) e n src d1 s))) \<and>
         (w_creds w1 (name p) = Some creds \<and> creds \<noteq> [] \<longrightarrow>
            chaos_check p w1 e s =
              (None, after_query w1 e src
                 (chaos_query p w1 e n src (apikeys creds)
                    (at_branch w1 (name p) (psource p) e n src d1 s))) \<and>
            securityTrails_check p w1 e s =
              (None, after_query w1 e src
                 (securityTrails_query p w1 e n src (apikeys creds)
                    (at_branch w1 (name p) (psource p) e n src d1 s)))) \<and>
         trace (after_query w1 e src q) =
           trace (snd q) @ E_MarkAssetMonitored (EAsset e) src #
             (if fst q = [] then [] else [E_ProcessFQDNsWithSource (fst q) src]) \<and>
         edges (after_query w1 e src q) (ID (EAsset e), ID src) = Some (w_marktime w1) \<and>
         duckDuckGo_check p w2 e s2 = (None, reuse_path w2 (name p) (psource p) e n src d2 s2) \<and>
         siteDossier_check p w2 e s2 = (None, reuse_path w2 (name p) (psource p) e n src d2 s2) \<and>
         crtsh_check p w2 e s2 = (None, reuse_path w2 (name p) (psource p) e n src d2 s2) \<and>
         chaos_check p w2 e s2 =
           (None, if w_creds w2 (name p) = None \<or> w_creds w2 (name p) = Some [] then s2
                  else reuse_path w2 (name p) (psource p) e n src d2 s2) \<and>
         securityTrails_check p w2 e s2 =
           (None, if w_creds w2 (name p) = None \<or> w_creds w2 (name p) = Some [] then s2
                  else reuse_path w2 (name p) (psource p) e n src d2 s2) \<and>
         requests (trace (reuse_path w2 (name p) (psource p) e n src d2 s2)) = requests (trace s2) \<and>
         takes (trace (reuse_path w2 (name p) (psource p) e n src d2 s2)) = takes (trace s2)"
proof -
  have "w_now w2 - d2 \<le> t2" using assms(10,11) by simp
  note fresh = pipeline_fresh[OF assms(6-9) this]
  note stale = pipeline_stale[OF assms(2-5)]
  show ?thesis
    using assms(1)
    by (simp add: check_pipeline fresh stale after_query_trace after_query_edges reuse_path_frame
        split: option.splits)
qed

theorem C10_mark_after_failed_query_witness:
  "Asset (EAsset event0) = FQDN ''example.com'' \<and>
   passes_scope example_world ''example.com'' \<and> passes_scope world_later ''example.com'' \<and>
   w_source example_world (psource NewChaos) = Some (source_node ''Chaos'') \<and>
   w_source world_later (psource NewChaos) = Some (source_node ''Chaos'') \<and>
   w_ttl example_world ''FQDN'' ''FQDN'' (name NewChaos) = Some 60 \<and>
   w_ttl world_later ''FQDN'' ''FQDN'' (name NewChaos) = Some 60 \<and>
   w_creds example_world (name NewChaos) = Some [Some ''key1'', None, Some ''key2''] \<and>
   edges s0 (ID (EAsset event0), ID (source_node ''Chaos'')) = None \<and>
   w_now world_later - 60 \<le> w_marktime example_world \<and>
   fst (chaos_check NewChaos example_world event0 s0) = None \<and>
   map snd (requests (trace (snd (chaos_check NewChaos example_world event0 s0)))) = [None, None] \<and>
   stored (trace (snd (chaos_check NewChaos example_world event0 s0))) = [[]] \<and>
   edges (snd (chaos_check NewChaos example_world event0 s0))
     (ID (EAsset event0), ID (source_node ''Chaos'')) = Some 10001 \<and>
   fst (chaos_check NewChaos world_later event0
          (snd (chaos_check NewChaos example_world event0 s0))) = None \<and>
   requests (trace (snd (chaos_check NewChaos world_later event0
          (snd (chaos_check NewChaos example_world event0 s0))))) =
     requests (trace (snd (chaos_check NewChaos example_world event0 s0))) \<and>
   fst (duckDuckGo_check NewChaos example_world event0 s0) = None \<and>
   edges (snd (duckDuckGo_check NewChaos example_world event0 s0))
     (ID (EAsset event0), ID (source_node ''Chaos'')) = Some 10001"
proof -
  let ?src = "source_node ''Chaos''"
  let ?cr = "[Some ''key1'', None, Some ''key2'']"
  let ?s1 = "snd (chaos_check NewChaos example_world event0 s0)"
  have a: "Asset (EAsset event0) = FQDN ''example.com''"
    by (simp add: event0_def subject0_def)
  have b: "passes_scope example_world ''example.com''"
    by (simp add: passes_scope_def example_world_def example_scope_def ascii_EqualFold_def
        ascii_ToLower_def ascii_lower_def)
  have b2: "passes_scope world_later ''example.com''"
    by (simp add: passes_scope_def world_later_def example_world_def example_scope_def
        ascii_EqualFold_def ascii_ToLower_def ascii_lower_def)
  have c: "w_source example_world (psource NewChaos) = Some ?src"
    by (simp add: example_world_def example_source_def NewChaos_def source_node_def)
  have c2: "w_source world_later (psource NewChaos) = Some ?src"
    by (simp add: world_later_def example_world_def example_source_def NewChaos_def
        source_node_def)
  have d: "w_ttl example_world ''FQDN'' ''FQDN'' (name NewChaos) = Some 60"
    by (simp add: example_world_def)
  have d2: "w_ttl world_later ''FQDN'' ''FQDN'' (name NewChaos) = Some 60"
    by (simp add: world_later_def example_world_def)
  have cr: "w_creds example_world (name NewChaos) = Some ?cr"
    by (simp add: example_world_def)
  have cr2: "w_creds world_later (name NewChaos) = Some ?cr"
    by (simp add: world_later_def example_world_def)
  have e0: "edges s0 (ID (EAsset event0), ID ?src) = None"
    by (simp add: s0_def)
  then have e: "case edges s0 (ID (EAsset event0), ID ?src) of None \<Rightarrow> True
                | Some t \<Rightarrow> t < w_now example_world - 60"
    by simp
  have g: "w_now world_later - 60 \<le> w_marktime example_world"
    by (simp add: world_later_def example_world_def)
  define Q where "Q = chaos_query NewChaos example_world event0 ''example.com'' ?src (apikeys ?cr)
             (at_branch example_world (name NewChaos) (psource NewChaos) event0
                ''example.com'' ?src 60 s0)"
  have mk: "edges (after_query example_world event0 ?src Q) (ID (EAsset event0), ID ?src) =
              Some (w_marktime example_world)"
    by (rule after_query_edges)
  note T = C10_mark_after_any_query[where creds = ?cr and q = Q, OF a b c d e b2 c2 d2 mk order_refl g]
  have first: "chaos_check NewChaos example_world event0 s0 =
       (None, after_query example_world event0 ?src Q)"
    using T cr by (simp add: Q_def)
  then have s1: "?s1 = after_query example_world event0 ?src Q"
    by simp
  have mark: "edges ?s1 (ID (EAsset event0), ID ?src) = Some 10001"
    using mk s1 by (simp add: example_world_def)
  have second: "chaos_check NewChaos world_later event0 ?s1 =
        (None, reuse_path world_later (name NewChaos) (psource NewChaos) event0
            ''example.com'' ?src 60 ?s1)"
    and same: "requests (trace (reuse_path world_later (name NewChaos) (psource NewChaos) event0
            ''example.com'' ?src 60 ?s1)) = requests (trace ?s1)"
    using T cr2 unfolding s1 by simp_all
  have ddg: "fst (duckDuckGo_check NewChaos example_world event0 s0) = None"
    and ddg_mark: "edges (snd (duckDuckGo_check NewChaos example_world event0 s0))
       (ID (EAsset event0), ID ?src) = Some 10001"
    using C10_mark_after_any_query[where creds = ?cr
        and q = "duckDuckGo_query NewChaos example_world event0 ''example.com'' ?src
                   (at_branch example_world (name NewChaos) (psource NewChaos) event0
                      ''example.com'' ?src 60 s0)",
        OF a b c d e b2 c2 d2 mk order_refl g]
    by (simp_all add: example_world_def)
  have r1: "map snd (requests (trace ?s1)) = [None, None]"
    and st1: "stored (trace ?s1) = [[]]"
    by code_simp+
  show ?thesis
    using a b b2 c c2 d d2 cr e0 g first mark second same r1 st1 ddg ddg_mark
    by simp
qed

subsection \<open>The autnum handler\<close>





lemma autnum_oneOfSources_trace:
  "\<exists>tr. trace (snd (autnum_oneOfSources r w e a src since s)) = trace s @ tr"
  by (simp add: autnum_oneOfSources_def OutgoingRelations_def emit_def split: option.splits)

lemma autnum_rels_trace:
  "autnum_rels r w e asset src sinces rels findings s = Some (fs, s') \<Longrightarrow>
     \<exists>tr. trace s' = trace s @ tr"
proof (induction rels arbitrary: findings s)
  case Nil
  then show ?case by simp
next
  case (Cons rel rels)
  let ?s1 = "emit (E_DB (DB_FindById (ID (ToAsset rel)) zero_time)) s"
  have t1: "trace ?s1 = trace s @ [E_DB (DB_FindById (ID (ToAsset rel)) zero_time)]"
    by (simp add: emit_def)
  show ?case
  proof (cases "w_find_by_id w (ID (ToAsset rel)) zero_time")
    case None
    then have "autnum_rels r w e asset src sinces rels findings ?s1 = Some (fs, s')"
      using Cons.prems by (simp add: FindById_def)
    from Cons.IH[OF this] t1 show ?thesis by auto
  next
    case (Some a)
    show ?thesis
    proof (cases "sinces (AssetType (Asset a))")
      case None
      then have "autnum_rels r w e asset src sinces rels findings ?s1 = Some (fs, s')"
        using Cons.prems Some by (simp add: FindById_def)
      from Cons.IH[OF this] t1 show ?thesis by auto
    next
      case since: (Some since)
      show ?thesis
      proof (cases "LastSeen a < since")
        case True
        then have "autnum_rels r w e asset src sinces rels findings ?s1 = Some (fs, s')"
          using Cons.prems Some since by (simp add: FindById_def)
        from Cons.IH[OF this] t1 show ?thesis by auto
      next
        case False
        obtain b s2 where o: "autnum_oneOfSources r w e a src since ?s1 = (b, s2)"
          by (cases "autnum_oneOfSources r w e a src since ?s1") auto
        obtain tr2 where t2: "trace s2 = trace ?s1 @ tr2"
          using autnum_oneOfSources_trace[of r w e a src since ?s1] o by auto
        have "\<exists>fs'. autnum_rels r w e asset src sinces rels fs' s2 = Some (fs, s')"
          using Cons.prems Some since False o
          by (auto simp: FindById_def split: bool.splits option.splits oam_asset.splits)
        then obtain fs' where "autnum_rels r w e asset src sinces rels fs' s2 = Some (fs, s')" ..
        from Cons.IH[OF this] t1 t2 show ?thesis by auto
      qed
    qed
  qed
qed

lemma autnum_lookup_closure_trace:
  assumes "autnum_lookup_closure r w e asset src rtypes sinces s = Some (fs, s')"
  shows "\<exists>tr. trace s' = trace s @ E_Done (w_done w) # tr"
proof (cases "w_done w")
  case True
  then show ?thesis using assms by (auto simp: autnum_lookup_closure_def Done_def emit_def)
next
  case False
  let ?s0 = "emit (E_Done False) s"
  let ?s1 = "emit (E_DB (DB_OutgoingRelations asset zero_time rtypes)) ?s0"
  have t: "trace ?s1 = trace s @ E_Done (w_done w) # [E_DB (DB_OutgoingRelations asset zero_time rtypes)]"
    using False by (simp add: emit_def)
  show ?thesis
  proof (cases "\<exists>rels. w_outgoing w asset zero_time rtypes = Some rels \<and> rels \<noteq> []")
    case True
    then obtain rels where "w_outgoing w asset zero_time rtypes = Some rels" "rels \<noteq> []" by blast
    then have "autnum_rels r w e asset src sinces rels [] ?s1 = Some (fs, s')"
      using assms False by (simp add: autnum_lookup_closure_def Done_def OutgoingRelations_def)
    from autnum_rels_trace[OF this] t show ?thesis by auto
  next
    case nr: False
    then have "s' = ?s1"
      using assms False
      by (auto simp: autnum_lookup_closure_def Done_def OutgoingRelations_def split: option.splits if_splits)
    then show ?thesis using t by auto
  qed
qed

lemma autnum_store_closure_trace:
  assumes "autnum_store_closure r w e resp asset src m handle whois s = Some (fs, s')"
  shows "\<exists>tr. trace s' = trace s @ E_Done (w_done w) # tr"
  using assms
  by (auto simp: autnum_store_closure_def Done_def Create_def Link_def IsAssetInScope_def emit_def
      split: option.splits if_splits prod.splits bool.splits)

text \<open>
  C9. The two closures that the sources give to \<^verbatim>\<open>AppendToDBQueue\<close> (in
  \<^verbatim>\<open>autnum.lookup\<close> and \<^verbatim>\<open>autnum.store\<close>) test the done signal of the session
  first: when the session is done they return at once, with no operation of the graph
  store and no finding, and in every run the test is their first effect.
\<close>

theorem C9_closures_check_done_first:
  "(w_done w \<longrightarrow>
      autnum_lookup_closure r w e asset src rtypes sinces s = Some ([], emit (E_Done True) s) \<and>
      autnum_store_closure r w e resp asset src m handle whois s = Some ([], emit (E_Done True) s) \<and>
      db_calls (trace (emit (E_Done True) s)) = db_calls (trace s)) \<and>
   (autnum_lookup_closure r w e asset src rtypes sinces s = Some (fs, s') \<longrightarrow>
      (\<exists>tr. trace s' = trace s @ E_Done (w_done w) # tr)) \<and>
   (autnum_store_closure r w e resp asset src m handle whois s = Some (fs, s') \<longrightarrow>
      (\<exists>tr. trace s' = trace s @ E_Done (w_done w) # tr))"
  using autnum_lookup_closure_trace[of r w e asset src rtypes sinces s fs s']
    autnum_store_closure_trace[of r w e resp asset src m handle whois s fs s']
  by (simp add: autnum_lookup_closure_def autnum_store_closure_def Done_def emit_def db_calls_append)

theorem C9_closures_done_witness:
  "w_done world_done \<and>
   autnum_lookup_closure example_autnum world_done event_as subject_as (source_node ''RDAP'')
      [''rdap_url''] Map.empty s0 = Some ([], emit (E_Done True) s0) \<and>
   autnum_store_closure example_autnum world_done event_as example_response subject_as
      (source_node ''RDAP'') \<lparr>IsMatch = (\<lambda>t. True), Len = 3\<rparr> ''AS64500'' ''whois.example.com'' s0 =
      Some ([], emit (E_Done True) s0) \<and>
   trace (emit (E_Done True) s0) = [E_Done True] \<and>
   (\<exists>tr. trace (emit (E_Done True) s0) = trace s0 @ E_Done (w_done world_done) # tr) \<and>
   db_calls (trace (snd (autnum_check example_autnum world_done event_as s0))) = [] \<and>
   db_calls (trace (snd (autnum_check example_autnum world_done
                           (event_as\<lparr>EMeta := AutnumMeta example_response\<rparr>) s0))) = []"
proof -
  have a: "w_done world_done"
    by (simp add: world_done_def)
  have b: "db_calls (trace (snd (autnum_check example_autnum world_done event_as s0))) = []"
    by code_simp
  have c: "db_calls (trace (snd (autnum_check example_autnum world_done
                           (event_as\<lparr>EMeta := AutnumMeta example_response\<rparr>) s0))) = []"
    by code_simp
  note T = C9_closures_check_done_first[of world_done example_autnum event_as subject_as
        "source_node ''RDAP''" "[''rdap_url'']" Map.empty s0 example_response
        "\<lparr>IsMatch = (\<lambda>t. True), Len = 3\<rparr>" "''AS64500''" "''whois.example.com''"
        "[]" "emit (E_Done True) s0"]
  have l: "autnum_lookup_closure example_autnum world_done event_as subject_as (source_node ''RDAP'')
      [''rdap_url''] Map.empty s0 = Some ([], emit (E_Done True) s0)"
    and s: "autnum_store_closure example_autnum world_done event_as example_response subject_as
      (source_node ''RDAP'') \<lparr>IsMatch = (\<lambda>t. True), Len = 3\<rparr> ''AS64500'' ''whois.example.com'' s0 =
      Some ([], emit (E_Done True) s0)"
    using T a by simp_all
  have d: "\<exists>tr. trace (emit (E_Done True) s0) = trace s0 @ E_Done (w_done world_done) # tr"
    using T l by blast
  have e: "trace (emit (E_Done True) s0) = [E_Done True]"
    by (simp add: emit_def s0_def)
  show ?thesis
    using a b c l s d e by simp
qed


subsection \<open>The loops of the scrapers\<close>

lemma requests_scopes: "requests (map (\<lambda>n. E_IsAssetInScope (f n)) ns) = []"
  by (induction ns) auto

lemma takes_scopes: "takes (map (\<lambda>n. E_IsAssetInScope (f n)) ns) = 0"
  by (induction ns) auto

lemma stored_scopes: "stored (map (\<lambda>n. E_IsAssetInScope (f n)) ns) = []"
  by (induction ns) auto

lemma scope_checks_scopes: "scope_checks (map (\<lambda>n. E_IsAssetInScope (f n)) ns) = map f ns"
  by (induction ns) auto

lemma Insert_distinct: "distinct xs \<Longrightarrow> distinct (Insert x xs)"
  by (simp add: Insert_def)

lemma Insert_set: "set (Insert x xs) = insert x (set xs)"
  by (auto simp: Insert_def)

lemma duckDuckGo_names_snd:
  "snd (duckDuckGo_names w ns subs s) =
     s\<lparr>trace := trace s @ map (\<lambda>n. E_IsAssetInScope (FQDN (w_ToLower w (w_TrimSpace w n)))) ns\<rparr>"
  by (induction ns arbitrary: subs s)
     (simp_all add: IsAssetInScope_def emit_def Let_def split: prod.splits)

lemma duckDuckGo_names_fst:
  "distinct subs \<Longrightarrow>
     distinct (fst (duckDuckGo_names w ns subs s)) \<and>
     set (fst (duckDuckGo_names w ns subs s)) = set subs \<union> set (kept w ns)"
  by (induction ns arbitrary: subs s)
     (auto simp: kept_def IsAssetInScope_def Let_def Insert_distinct Insert_set split: prod.splits)

lemma siteDossier_names_snd:
  "snd (siteDossier_names w ns subs s) =
     s\<lparr>trace := trace s @ map (\<lambda>n. E_IsAssetInScope (FQDN (w_ToLower w (w_TrimSpace w n)))) ns\<rparr>"
  by (induction ns arbitrary: subs s)
     (simp_all add: IsAssetInScope_def emit_def Let_def split: prod.splits)

lemma siteDossier_names_trace:
  "siteDossier_names w ns subs s = (subs', s') \<Longrightarrow>
     s' = s\<lparr>trace := trace s @ map (\<lambda>n. E_IsAssetInScope (FQDN (w_ToLower w (w_TrimSpace w n)))) ns\<rparr>"
  using siteDossier_names_snd[of w ns subs s] by simp

lemma siteDossier_names_fst:
  "distinct subs \<Longrightarrow>
     distinct (fst (siteDossier_names w ns subs s)) \<and>
     set (fst (siteDossier_names w ns subs s)) = set subs \<union> set (kept w ns)"
  by (induction ns arbitrary: subs s)
     (auto simp: kept_def IsAssetInScope_def Let_def Insert_distinct Insert_set split: prod.splits)

lemma pages_ok_Nil: "\<not> i < 20 \<Longrightarrow> i \<le> 20 \<Longrightarrow> pages_ok sd nm i []"
  by (simp add: pages_ok_def)

lemma pages_ok_stop:
  "i < 20 \<Longrightarrow> \<not> nonempty resp \<Longrightarrow> pages_ok sd nm i [(siteDossier_request sd nm i, resp)]"
  by (simp add: pages_ok_def)

lemma pages_ok_step:
  assumes "i < 20" "nonempty resp" "pages_ok sd nm (Suc i) rs"
  shows "pages_ok sd nm i ((siteDossier_request sd nm i, resp) # rs)"
proof -
  have a: "[i..<i + Suc (length rs)] = i # [Suc i..<Suc i + length rs]"
    by (subst upt_rec) simp
  have b: "\<forall>j < length rs. nonempty (snd (((siteDossier_request sd nm i, resp) # rs) ! j))"
  proof (intro allI impI)
    fix j assume j: "j < length rs"
    show "nonempty (snd (((siteDossier_request sd nm i, resp) # rs) ! j))"
    proof (cases j)
      case 0 then show ?thesis using assms(2) by simp
    next
      case (Suc k)
      then have "k < length rs - 1" using j by simp
      then show ?thesis using assms(3) Suc by (simp add: pages_ok_def)
    qed
  qed
  show ?thesis
    using assms a b unfolding pages_ok_def by (auto simp del: upt_Suc)
qed

lemma siteDossier_pages_trace:
  "i \<le> 20 \<Longrightarrow> distinct subs \<Longrightarrow> siteDossier_pages sd w nm i subs s = (subs', s') \<Longrightarrow>
     \<exists>tr. trace s' = trace s @ tr \<and> edges s' = edges s \<and> stored tr = [] \<and> distinct subs' \<and>
          takes tr = length (requests tr) \<and> pages_ok sd nm i (requests tr)"
proof (induction sd w nm i subs s arbitrary: subs' s' rule: siteDossier_pages.induct)
  case (1 sd w nm i subs s)
  show ?case
  proof (cases "i < 20")
    case False
    then have "s' = s" "subs' = subs" using "1.prems" by (simp_all add: siteDossier_pages.simps)
    then show ?thesis using False "1.prems"(1,2) by (auto intro: pages_ok_Nil)
  next
    case True
    define r where "r = siteDossier_request sd nm i"
    define resp where "resp = w_http w (nreq s) r"
    define s2 where "s2 = s\<lparr>nreq := Suc (nreq s), trace := trace s @ [E_Take (name sd), E_RequestWebPage r resp]\<rparr>"
    have rq: "RequestWebPage w \<lparr>ReqURL = Sprintf (fmtstr sd) [FmtS nm, FmtD i], ReqHeader = []\<rparr> (Take (name sd) s) = (resp, s2)"
      by (simp add: RequestWebPage_def Take_def emit_def Let_def resp_def s2_def r_def siteDossier_request_def)
    show ?thesis
    proof (cases "nonempty resp")
      case False
      then have "s' = s2" "subs' = subs" using "1.prems"(3) True rq
        by (subst (asm) siteDossier_pages.simps, auto split: option.splits if_splits)+
      then show ?thesis using False True pages_ok_stop[of i resp sd nm] "1.prems"(2)
        by (auto simp: s2_def r_def)
    next
      case ne: True
      then obtain body where body: "resp = Some body" "body \<noteq> []" by (cases resp) auto
      obtain subs1 s3 where nms: "siteDossier_names w (w_ScrapeSubdomainNames w body) subs s2 = (subs1, s3)"
        by (cases "siteDossier_names w (w_ScrapeSubdomainNames w body) subs s2") auto
      have d1: "distinct subs1"
        using siteDossier_names_fst[OF "1.prems"(2), of w "w_ScrapeSubdomainNames w body" s2] nms by simp
      have rec: "siteDossier_pages sd w nm (i + 1) subs1 s3 = (subs', s')"
        using "1.prems"(3) True rq body nms
        by (subst (asm) siteDossier_pages.simps) auto
      have "i + 1 \<le> 20" using True by simp
      from "1.IH"[OF True rq[symmetric] body(1) body(2) nms[symmetric] this d1 rec]
      obtain tr where tr: "trace s' = trace s3 @ tr" "edges s' = edges s3" "stored tr = []"
        "distinct subs'" "takes tr = length (requests tr)" "pages_ok sd nm (i + 1) (requests tr)" by blast
      note s3 = siteDossier_names_trace[OF nms]
      let ?sc = "map (\<lambda>n. E_IsAssetInScope (FQDN (w_ToLower w (w_TrimSpace w n)))) (w_ScrapeSubdomainNames w body)"
      let ?tr = "[E_Take (name sd), E_RequestWebPage r resp] @ ?sc @ tr"
      have "trace s' = trace s @ ?tr" using tr(1) s3 by (simp add: s2_def)
      moreover have "edges s' = edges s" using tr(2) s3 by (simp add: s2_def)
      moreover have "stored ?tr = []" using tr(3) by (simp add: stored_append stored_scopes)
      moreover have "requests ?tr = (r, resp) # requests tr" by (simp add: requests_append requests_scopes)
      moreover have "takes ?tr = Suc (takes tr)" by (simp add: takes_append takes_scopes)
      moreover have "pages_ok sd nm i ((r, resp) # requests tr)"
        unfolding r_def using pages_ok_step[OF True ne] tr(6) by simp
      ultimately show ?thesis using tr(4,5) by (intro exI[of _ ?tr]) simp
    qed
  qed
qed

text \<open>
  C7. The query step of SiteDossier is a total function: its loop ends. It asks for the
  pages 1, 2, ... in order, each once and each after one acquisition of the rate limiter,
  for at most 19 pages; every page before the last one asked for had a body, and unless
  all 19 pages were asked for, the last one failed or had an empty body.
\<close>

theorem C7_siteDossier_query_bounded:
  "\<exists>tr. trace (snd (siteDossier_query sd w e nm src s)) = trace s @ tr \<and>
        length (requests tr) \<le> 19 \<and> takes tr = length (requests tr) \<and>
        map fst (requests tr) = map (siteDossier_request sd nm) [1..<Suc (length (requests tr))] \<and>
        (\<forall>j < length (requests tr) - 1. nonempty (snd (requests tr ! j))) \<and>
        (length (requests tr) < 19 \<longrightarrow> requests tr \<noteq> [] \<and> \<not> nonempty (snd (last (requests tr))))"
proof -
  obtain subs s1 where p: "siteDossier_pages sd w nm 1 stringset_New s = (subs, s1)"
    by (cases "siteDossier_pages sd w nm 1 stringset_New s") auto
  have "distinct stringset_New" by (simp add: stringset_New_def)
  from siteDossier_pages_trace[OF _ this p]
  obtain tr where tr: "trace s1 = trace s @ tr" "takes tr = length (requests tr)"
    "pages_ok sd nm 1 (requests tr)" by auto
  let ?st = "E_StoreFQDNsWithSource (Slice subs) src (name sd) (name sd @ ''-Handler'')"
  have t: "trace (snd (siteDossier_query sd w e nm src s)) = trace s @ (tr @ [?st])"
    using tr(1) unfolding siteDossier_query_def p
    by (simp add: siteDossier_store_def StoreFQDNsWithSource_def emit_def)
  have r: "requests (tr @ [?st]) = requests tr" "takes (tr @ [?st]) = takes tr"
    by (simp_all add: requests_append takes_append)
  show ?thesis
    using t tr(2,3) unfolding pages_ok_def
    by (intro exI[of _ "tr @ [?st]"]) (simp add: r)
qed

theorem C7_siteDossier_query_witness:
  "trace (snd (siteDossier_query NewSiteDossier world_scraped event0 ''example.com''
                 (source_node ''SiteDossier'') s0)) =
     [E_Take ''SiteDossier'',
      E_RequestWebPage \<lparr>ReqURL = ''http://www.sitedossier.com/parentdomain/example.com/1'',
                        ReqHeader = []\<rparr> (Some ''page''),
      E_IsAssetInScope (FQDN ''a.example.com''), E_IsAssetInScope (FQDN ''a.example.com''),
      E_IsAssetInScope (FQDN ''a.example.com''),
      E_Take ''SiteDossier'',
      E_RequestWebPage \<lparr>ReqURL = ''http://www.sitedossier.com/parentdomain/example.com/2'',
                        ReqHeader = []\<rparr> (Some []),
      E_StoreFQDNsWithSource [''a.example.com''] (source_node ''SiteDossier'') ''SiteDossier''
        ''SiteDossier-Handler''] \<and>
   (\<exists>tr. trace (snd (siteDossier_query NewSiteDossier world_scraped event0 ''example.com''
                 (source_node ''SiteDossier'') s0)) = tr \<and>
         length (requests tr) \<le> 19 \<and> takes tr = length (requests tr) \<and>
         length (requests tr) = 2 \<and> \<not> nonempty (snd (last (requests tr))))"
proof -
  have ev: "trace (snd (siteDossier_query NewSiteDossier world_scraped event0 ''example.com''
                 (source_node ''SiteDossier'') s0)) =
     [E_Take ''SiteDossier'',
      E_RequestWebPage \<lparr>ReqURL = ''http://www.sitedossier.com/parentdomain/example.com/1'',
                        ReqHeader = []\<rparr> (Some ''page''),
      E_IsAssetInScope (FQDN ''a.example.com''), E_IsAssetInScope (FQDN ''a.example.com''),
      E_IsAssetInScope (FQDN ''a.example.com''),
      E_Take ''SiteDossier'',
      E_RequestWebPage \<lparr>ReqURL = ''http://www.sitedossier.com/parentdomain/example.com/2'',
                        ReqHeader = []\<rparr> (Some []),
      E_StoreFQDNsWithSource [''a.example.com''] (source_node ''SiteDossier'') ''SiteDossier''
        ''SiteDossier-Handler'']"
    by code_simp
  have t0: "trace s0 = []" by (simp add: s0_def)
  show ?thesis
    using C7_siteDossier_query_bounded[of NewSiteDossier world_scraped event0 "''example.com''"
        "source_node ''SiteDossier''" s0]
    unfolding t0 ev by auto
qed

subsection \<open>What the query steps hand to the store step\<close>

lemma distinct_set_singleton:
  assumes "distinct xs" and "set xs = {x}"
  shows "xs = [x]"
proof (cases xs)
  case Nil
  then show ?thesis using assms(2) by simp
next
  case (Cons a ys)
  then have a: "a = x" using assms(2) by auto
  have "set ys \<subseteq> {x}" using assms(2) Cons by auto
  moreover have "x \<notin> set ys" using assms(1) Cons a by simp
  ultimately have "ys = []" by (cases ys) auto
  then show ?thesis using Cons a by simp
qed

lemma duckDuckGo_query_stored:
  assumes "w_http w (nreq s) \<lparr>ReqURL = Sprintf (fmtstr p) [FmtS nm, FmtS nm], ReqHeader = []\<rparr> = Some body"
    and "body \<noteq> []"
  shows "\<exists>names. stored (trace (snd (duckDuckGo_query p w e nm src s))) = stored (trace s) @ [names] \<and>
           distinct names \<and> set names = set (kept w (w_ScrapeSubdomainNames w body))"
proof -
  define s2 where "s2 = s\<lparr>nreq := Suc (nreq s), trace := trace s @ [E_Take (name p),
     E_RequestWebPage \<lparr>ReqURL = Sprintf (fmtstr p) [FmtS nm, FmtS nm], ReqHeader = []\<rparr> (Some body)]\<rparr>"
  let ?r = "duckDuckGo_names w (w_ScrapeSubdomainNames w body) stringset_New s2"
  have q: "duckDuckGo_query p w e nm src s = duckDuckGo_store p w e (Slice (fst ?r)) src (snd ?r)"
    using assms
    by (simp add: duckDuckGo_query_def RequestWebPage_def Take_def emit_def Let_def s2_def
        case_prod_beta)
  have "stored (trace (snd (duckDuckGo_query p w e nm src s))) = stored (trace s) @ [fst ?r]"
    unfolding q
    by (simp add: duckDuckGo_store_def StoreFQDNsWithSource_def emit_def duckDuckGo_names_snd
        Slice_def stored_append stored_scopes s2_def)
  moreover have "distinct (fst ?r) \<and> set (fst ?r) = set (kept w (w_ScrapeSubdomainNames w body))"
    using duckDuckGo_names_fst[of stringset_New w "w_ScrapeSubdomainNames w body" s2]
    by (simp add: stringset_New_def)
  ultimately show ?thesis by blast
qed

lemma crtsh_lines_eq:
  "crtsh_lines w ns names s =
     (names @ kept_lines w ns,
      s\<lparr>trace := trace s @
          map (\<lambda>n. E_IsAssetInScope (FQDN (w_ToLower w (w_TrimSpace w (w_RemoveAsteriskLabel w n))))) ns\<rparr>)"
  by (induction ns arbitrary: names s)
     (simp_all add: kept_lines_def IsAssetInScope_def emit_def Let_def split: prod.splits)

lemma crtsh_certs_fst:
  "fst (crtsh_certs w certs names s) =
     names @ concat (map (\<lambda>cert. kept_lines w (Split cert (CHR 0x0A))) certs)"
  by (induction certs arbitrary: names s) (simp_all add: crtsh_lines_eq)

lemma crtsh_certs_stored:
  "stored (trace (snd (crtsh_certs w certs names s))) = stored (trace s)"
  by (induction certs arbitrary: names s) (simp_all add: crtsh_lines_eq stored_append stored_scopes)

lemma crtsh_query_stored:
  assumes "w_http w (nreq s)
             \<lparr>ReqURL = ''https://crt.sh/?CN='' @ nm @ ''&output=json&exclude=expired'',
              ReqHeader = []\<rparr> = Some body"
    and "w_Unmarshal_certs w
           ([CHR ''{'', CHR 0x22] @ ''certs'' @ [CHR 0x22, CHR '':''] @ body @ ''}'') = Some certs"
  shows "stored (trace (snd (crtsh_query p w e nm src s))) =
           stored (trace s) @ [concat (map (\<lambda>cert. kept_lines w (Split cert (CHR 0x0A))) certs)]"
  using assms
  by (simp add: crtsh_query_def RequestWebPage_def Take_def emit_def Let_def case_prod_beta
      crtsh_store_def StoreFQDNsWithSource_def crtsh_certs_fst crtsh_certs_stored stored_append)

text \<open>
  C4, as stated, fails on crt.sh: the three raw values of the claim, on the three lines of
  one certificate, reach the store step as three equal names.
\<close>

theorem C4_crtsh_passes_duplicates_counterexample:
  "w_Unmarshal_certs world_certs
     ([CHR ''{'', CHR 0x22] @ ''certs'' @ [CHR 0x22, CHR '':''] @ ''[cert]'' @ ''}'') =
     Some [''a.example.com'' @ [CHR 0x0A] @ ''A.example.com'' @ [CHR 0x0A] @ '' a.example.com ''] \<and>
   Split (''a.example.com'' @ [CHR 0x0A] @ ''A.example.com'' @ [CHR 0x0A] @ '' a.example.com '')
     (CHR 0x0A) = [''a.example.com'', ''A.example.com'', '' a.example.com ''] \<and>
   stored (trace (snd (crtsh_query NewCrtsh world_certs event0 ''example.com''
                         (source_node ''HackerTarget'') s0))) =
     [[''a.example.com'', ''a.example.com'', ''a.example.com'']]"
  by code_simp

subsection \<open>The loop of SecurityTrails over the keys\<close>

lemma securityTrails_subs_snd:
  "snd (securityTrails_subs w nm subs names s) =
     s\<lparr>trace := trace s @
          map (\<lambda>sub. E_IsAssetInScope
                 (FQDN (w_ToLower w (w_TrimSpace w (w_RemoveAsteriskLabel w (sub @ ''.'' @ nm)))))) subs\<rparr>"
  by (induction subs arbitrary: names s)
     (simp_all add: IsAssetInScope_def emit_def Let_def split: prod.splits)

text \<open>
  SecurityTrails stops at the first key whose answer has a body that parses: no request
  follows such an answer. Every name it hands to the scope filter is normalized.
\<close>

lemma securityTrails_keys_first_success:
  "\<exists>tr raw. trace (snd (securityTrails_keys st w nm keys names s)) = trace s @ tr \<and>
       takes tr = length (requests tr) \<and> length (requests tr) \<le> length keys \<and>
       (\<forall>j < length (requests tr). parseable w (snd (requests tr ! j)) \<longrightarrow>
            Suc j = length (requests tr)) \<and>
       scope_checks tr = map (\<lambda>n. FQDN (w_ToLower w (w_TrimSpace w n))) raw \<and> stored tr = []"
proof (induction keys arbitrary: names s)
  case Nil
  show ?case by (intro exI[of _ "[]"]) simp
next
  case (Cons key keys)
  define r where "r = \<lparr>ReqURL = ''https://api.securitytrails.com/v1/domain/'' @ nm @ ''/subdomains'',
              ReqHeader = [(''APIKEY'', [key])]\<rparr>"
  define resp where "resp = w_http w (nreq s) r"
  define s2 where "s2 = s\<lparr>nreq := Suc (nreq s), trace := trace s @ [E_Take (name st), E_RequestWebPage r resp]\<rparr>"
  have rq: "RequestWebPage w
              \<lparr>ReqURL = ''https://api.securitytrails.com/v1/domain/'' @ nm @ ''/subdomains'',
               ReqHeader = [(''APIKEY'', [key])]\<rparr> (Take (name st) s) = (resp, s2)"
    by (simp add: RequestWebPage_def Take_def emit_def Let_def resp_def s2_def r_def)
  have step: "securityTrails_keys st w nm (key # keys) names s =
      (case resp of
         None \<Rightarrow> securityTrails_keys st w nm keys names s2
       | Some body \<Rightarrow>
           if body = [] then securityTrails_keys st w nm keys names s2
           else (case w_Unmarshal_subdomains w body of
                   None \<Rightarrow> securityTrails_keys st w nm keys names s2
                 | Some result \<Rightarrow> securityTrails_subs w nm result names s2))"
    by (simp only: securityTrails_keys.simps rq prod.case)
  show ?case
  proof (cases "parseable w resp")
    case False
    then have keq: "securityTrails_keys st w nm (key # keys) names s = securityTrails_keys st w nm keys names s2"
      unfolding step by (auto simp: parseable_def split: option.splits)
    obtain tr raw where tr: "trace (snd (securityTrails_keys st w nm keys names s2)) = trace s2 @ tr"
      "takes tr = length (requests tr)" "length (requests tr) \<le> length keys"
      "\<forall>j < length (requests tr). parseable w (snd (requests tr ! j)) \<longrightarrow> Suc j = length (requests tr)"
      "scope_checks tr = map (\<lambda>n. FQDN (w_ToLower w (w_TrimSpace w n))) raw" "stored tr = []"
      using Cons.IH[of names s2] by blast
    let ?tr = "[E_Take (name st), E_RequestWebPage r resp] @ tr"
    have t1: "trace (snd (securityTrails_keys st w nm (key # keys) names s)) = trace s @ ?tr"
      unfolding keq tr(1) by (simp add: s2_def)
    have "\<forall>j < length (requests ?tr). parseable w (snd (requests ?tr ! j)) \<longrightarrow> Suc j = length (requests ?tr)"
    proof (intro allI impI)
      fix j assume j: "j < length (requests ?tr)" and p: "parseable w (snd (requests ?tr ! j))"
      show "Suc j = length (requests ?tr)"
      proof (cases j)
        case 0 then show ?thesis using p False by simp
      next
        case (Suc k) then show ?thesis using j p tr(4) by simp
      qed
    qed
    then show ?thesis
      using t1 tr(2,3,5,6)
      by (intro exI[of _ ?tr] exI[of _ raw]) (simp del: securityTrails_keys.simps)
  next
    case True
    then obtain body result where b: "resp = Some body" "body \<noteq> []" "w_Unmarshal_subdomains w body = Some result"
      by (auto simp: parseable_def split: option.splits)
    have eq: "securityTrails_keys st w nm (key # keys) names s = securityTrails_subs w nm result names s2"
      unfolding step using b by simp
    let ?sc = "map (\<lambda>sub. E_IsAssetInScope
                 (FQDN (w_ToLower w (w_TrimSpace w (w_RemoveAsteriskLabel w (sub @ ''.'' @ nm)))))) result"
    let ?tr = "[E_Take (name st), E_RequestWebPage r resp] @ ?sc"
    have "trace (snd (securityTrails_keys st w nm (key # keys) names s)) = trace s @ ?tr"
      unfolding eq securityTrails_subs_snd by (simp add: s2_def)
    moreover have "requests ?tr = [(r, resp)]" "takes ?tr = 1" "stored ?tr = []"
      by (simp_all add: requests_scopes takes_scopes stored_scopes)
    moreover have "scope_checks ?tr = map (\<lambda>n. FQDN (w_ToLower w (w_TrimSpace w n)))
                      (map (\<lambda>sub. w_RemoveAsteriskLabel w (sub @ ''.'' @ nm)) result)"
      by (simp add: scope_checks_scopes)
    ultimately show ?thesis
      by (intro exI[of _ ?tr] exI[of _ "map (\<lambda>sub. w_RemoveAsteriskLabel w (sub @ ''.'' @ nm)) result"])
         (simp del: securityTrails_keys.simps)
  qed
qed


lemma other_sources_carry_the_plugin_name:
  "Name (psource NewDuckDuckGo) = name NewDuckDuckGo \<and>
   Name (psource NewSiteDossier) = name NewSiteDossier \<and>
   Name (psource NewChaos) = name NewChaos \<and>
   Name (psource NewSecurityTrails) = name NewSecurityTrails"
  by (simp add: NewDuckDuckGo_def NewSiteDossier_def NewChaos_def NewSecurityTrails_def)

text \<open>
  C2 fails on crt.sh. Its constructor gives the plugin the name \<^verbatim>\<open>crt.sh\<close> and the
  source the name \<^verbatim>\<open>HackerTarget\<close>: the TTL is looked up for \<^verbatim>\<open>crt.sh\<close>, and the
  freshness is read from the edge to the node of \<^verbatim>\<open>HackerTarget\<close>. A subject with an
  edge to \<^verbatim>\<open>HackerTarget\<close> only, and none to \<^verbatim>\<open>crt.sh\<close>, is taken as freshly
  monitored, and crt.sh is not asked.
\<close>

theorem C2_crtsh_freshness_of_another_source:
  "name NewCrtsh = ''crt.sh'' \<and> Name (psource NewCrtsh) = ''HackerTarget'' \<and>
   edges (s_monitored ''HackerTarget'') (ID subject0, ''crt.sh'') = None \<and>
   edges (s_monitored ''HackerTarget'') (ID subject0, ''HackerTarget'') = Some 9990 \<and>
   fst (crtsh_check NewCrtsh example_world event0 (s_monitored ''HackerTarget'')) = None \<and>
   trace (snd (crtsh_check NewCrtsh example_world event0 (s_monitored ''HackerTarget''))) =
     [E_IsAssetInScope (FQDN ''example.com''),
      E_GetSource \<lparr>Name = ''HackerTarget'', Confidence = 100\<rparr>,
      E_TTLStartTime ''FQDN'' ''FQDN'' ''crt.sh'',
      E_AssetMonitoredWithinTTL subject0 (source_node ''HackerTarget'') 9940,
      E_SourceToAssetsWithinTTL ''example.com'' ''FQDN'' (source_node ''HackerTarget'') 9940]"
  by code_simp

text \<open>
  C5 fails on Chaos. Its query step hands the name to the scope filter as the API gave
  it, and lowers and trims it afterwards, for the store step only; SecurityTrails, on the
  same answer, normalizes first.
\<close>

theorem C5_chaos_scope_check_before_normalization:
  "w_Unmarshal_subdomains world_api ''answer'' = Some [''WWW''] \<and>
   scope_checks (trace (snd (chaos_query NewChaos world_api event0 ''example.com''
                               (source_node ''Chaos'') [''key1''] s0))) =
     [FQDN ''WWW.example.com''] \<and>
   w_ToLower world_api (w_TrimSpace world_api ''WWW.example.com'') = ''www.example.com'' \<and>
   stored (trace (snd (chaos_query NewChaos world_api event0 ''example.com''
                         (source_node ''Chaos'') [''key1''] s0))) = [[''www.example.com'']] \<and>
   scope_checks (trace (snd (securityTrails_query NewSecurityTrails world_api event0 ''example.com''
                               (source_node ''SecurityTrails'') [''key1''] s0))) =
     [FQDN ''www.example.com'']"
  by code_simp

text \<open>
  C6 fails on Chaos. Its loop over the keys has no \<^verbatim>\<open>break\<close>: after the first key
  has given an answer that parses, the second key is tried too, with a second
  acquisition of the rate limiter. SecurityTrails, on the same answers, stops after the
  first key.
\<close>

theorem C6_chaos_tries_every_key:
  "apikeys [Some ''key1'', None, Some ''key2''] = [''key1'', ''key2''] \<and>
   w_Unmarshal_subdomains world_api ''answer'' = Some [''WWW''] \<and>
   requests (trace (snd (chaos_query NewChaos world_api event0 ''example.com''
                           (source_node ''Chaos'') [''key1'', ''key2''] s0))) =
     [(\<lparr>ReqURL = ''https://dns.projectdiscovery.io/dns/example.com/subdomains'',
        ReqHeader = [(''Authorization'', [''key1''])]\<rparr>, Some ''answer''),
      (\<lparr>ReqURL = ''https://dns.projectdiscovery.io/dns/example.com/subdomains'',
        ReqHeader = [(''Authorization'', [''key2''])]\<rparr>, Some ''answer'')] \<and>
   takes (trace (snd (chaos_query NewChaos world_api event0 ''example.com''
                        (source_node ''Chaos'') [''key1'', ''key2''] s0))) = 2 \<and>
   requests (trace (snd (securityTrails_query NewSecurityTrails world_api event0 ''example.com''
                           (source_node ''SecurityTrails'') [''key1'', ''key2''] s0))) =
     [(\<lparr>ReqURL = ''https://api.securitytrails.com/v1/domain/example.com/subdomains'',
        ReqHeader = [(''APIKEY'', [''key1''])]\<rparr>, Some ''answer'')]"
  by code_simp

subsection \<open>What the lookup of the autnum handler reads, and the names of SiteDossier\<close>

lemma kept_append: "kept w (xs @ ys) = kept w xs @ kept w ys"
  by (simp add: kept_def)








lemma bodies_nonempty_Cons:
  "nonempty resp \<Longrightarrow> bodies ((r, resp) # rs) = the resp # bodies rs"
  by (cases resp) auto

lemma siteDossier_pages_names:
  "i \<le> 20 \<Longrightarrow> distinct subs \<Longrightarrow> siteDossier_pages sd w nm i subs s = (subs', s') \<Longrightarrow>
     \<exists>tr. trace s' = trace s @ tr \<and>
          set subs' = set subs \<union>
            set (kept w (concat (map (w_ScrapeSubdomainNames w) (bodies (requests tr)))))"
proof (induction sd w nm i subs s arbitrary: subs' s' rule: siteDossier_pages.induct)
  case (1 sd w nm i subs s)
  show ?case
  proof (cases "i < 20")
    case False
    then have "s' = s" "subs' = subs" using "1.prems" by (simp_all add: siteDossier_pages.simps)
    then show ?thesis by (intro exI[of _ "[]"]) (simp add: kept_def)
  next
    case True
    define r where "r = siteDossier_request sd nm i"
    define resp where "resp = w_http w (nreq s) r"
    define s2 where "s2 = s\<lparr>nreq := Suc (nreq s), trace := trace s @ [E_Take (name sd), E_RequestWebPage r resp]\<rparr>"
    have rq: "RequestWebPage w \<lparr>ReqURL = Sprintf (fmtstr sd) [FmtS nm, FmtD i], ReqHeader = []\<rparr> (Take (name sd) s) = (resp, s2)"
      by (simp add: RequestWebPage_def Take_def emit_def Let_def resp_def s2_def r_def siteDossier_request_def)
    show ?thesis
    proof (cases "nonempty resp")
      case False
      then have e: "s' = s2" "subs' = subs" using "1.prems"(3) True rq
        by (subst (asm) siteDossier_pages.simps, auto split: option.splits if_splits)+
      have "bodies [(r, resp)] = []" using False by (cases resp) auto
      then show ?thesis using e
        by (intro exI[of _ "[E_Take (name sd), E_RequestWebPage r resp]"]) (simp add: s2_def kept_def)
    next
      case ne: True
      then obtain body where body: "resp = Some body" "body \<noteq> []" by (cases resp) auto
      obtain subs1 s3 where nms: "siteDossier_names w (w_ScrapeSubdomainNames w body) subs s2 = (subs1, s3)"
        by (cases "siteDossier_names w (w_ScrapeSubdomainNames w body) subs s2") auto
      have d1: "distinct subs1" "set subs1 = set subs \<union> set (kept w (w_ScrapeSubdomainNames w body))"
        using siteDossier_names_fst[OF "1.prems"(2), of w "w_ScrapeSubdomainNames w body" s2] nms
        by simp_all
      have rec: "siteDossier_pages sd w nm (i + 1) subs1 s3 = (subs', s')"
        using "1.prems"(3) True rq body nms
        by (subst (asm) siteDossier_pages.simps) auto
      have "i + 1 \<le> 20" using True by simp
      from "1.IH"[OF True rq[symmetric] body(1) body(2) nms[symmetric] this d1(1) rec]
      obtain tr where tr: "trace s' = trace s3 @ tr"
        "set subs' = set subs1 \<union>
            set (kept w (concat (map (w_ScrapeSubdomainNames w) (bodies (requests tr)))))" by blast
      note s3 = siteDossier_names_trace[OF nms]
      let ?sc = "map (\<lambda>n. E_IsAssetInScope (FQDN (w_ToLower w (w_TrimSpace w n)))) (w_ScrapeSubdomainNames w body)"
      let ?tr = "[E_Take (name sd), E_RequestWebPage r resp] @ ?sc @ tr"
      have a: "trace s' = trace s @ ?tr" using tr(1) s3 by (simp add: s2_def)
      have b: "bodies (requests ?tr) = body # bodies (requests tr)"
        using body by (simp add: requests_append requests_scopes)
      have "set subs' = set subs \<union>
            set (kept w (concat (map (w_ScrapeSubdomainNames w) (bodies (requests ?tr)))))"
        unfolding b using tr(2) d1(2) by (auto simp: kept_append)
      with a show ?thesis by blast
    qed
  qed
qed

lemma siteDossier_query_names:
  "\<exists>tr names. trace (snd (siteDossier_query p w e nm src s)) = trace s @ tr \<and>
      stored tr = [names] \<and> distinct names \<and>
      set names = set (kept w (concat (map (w_ScrapeSubdomainNames w) (bodies (requests tr)))))"
proof -
  obtain subs s1 where pg: "siteDossier_pages p w nm 1 stringset_New s = (subs, s1)"
    by (cases "siteDossier_pages p w nm 1 stringset_New s") auto
  have d: "distinct stringset_New" by (simp add: stringset_New_def)
  from siteDossier_pages_trace[OF _ d pg]
  obtain tr where tr: "trace s1 = trace s @ tr" "stored tr = []" "distinct subs" by auto
  from siteDossier_pages_names[OF _ d pg]
  obtain tr' where tr': "trace s1 = trace s @ tr'"
    "set subs = set stringset_New \<union>
       set (kept w (concat (map (w_ScrapeSubdomainNames w) (bodies (requests tr')))))" by auto
  have same: "tr' = tr" using tr(1) tr'(1) by simp
  let ?st = "E_StoreFQDNsWithSource (Slice subs) src (name p) (name p @ ''-Handler'')"
  have t: "trace (snd (siteDossier_query p w e nm src s)) = trace s @ (tr @ [?st])"
    using tr(1) unfolding siteDossier_query_def pg
    by (simp add: siteDossier_store_def StoreFQDNsWithSource_def emit_def)
  have "stored (tr @ [?st]) = [subs]" "requests (tr @ [?st]) = requests tr"
    using tr(2) by (simp_all add: stored_append requests_append Slice_def)
  then show ?thesis
    using t tr(3) tr'(2) same
    by (intro exI[of _ "tr @ [?st]"] exI[of _ subs]) (simp add: stringset_New_def)
qed



text \<open>
  C4, as amended. The scrapers DuckDuckGo and SiteDossier collect the candidates in a
  string set: the names that they hand to the store step are distinct, and they are the
  normalized names, accepted by the scope filter, of the page (DuckDuckGo) or of the
  pages fetched with a body (SiteDossier). crt.sh collects them in a slice: the store
  step gets every normalized line that the scope filter accepts, in order and as often as
  it occurs.
\<close>

theorem C4_scrapers_deduplicate:
  "(w_http w (nreq s) \<lparr>ReqURL = Sprintf (fmtstr p) [FmtS nm, FmtS nm], ReqHeader = []\<rparr> = Some body \<and>
    body \<noteq> [] \<longrightarrow>
      (\<exists>names. stored (trace (snd (duckDuckGo_query p w e nm src s))) = stored (trace s) @ [names] \<and>
         distinct names \<and> set names = set (kept w (w_ScrapeSubdomainNames w body)))) \<and>
   (\<exists>tr names. trace (snd (siteDossier_query p w e nm src s)) = trace s @ tr \<and>
      stored tr = [names] \<and> distinct names \<and>
      set names = set (kept w (concat (map (w_ScrapeSubdomainNames w) (bodies (requests tr)))))) \<and>
   (w_http w (nreq s)
       \<lparr>ReqURL = ''https://crt.sh/?CN='' @ nm @ ''&output=json&exclude=expired'',
        ReqHeader = []\<rparr> = Some body2 \<and>
    w_Unmarshal_certs w
       ([CHR ''{'', CHR 0x22] @ ''certs'' @ [CHR 0x22, CHR '':''] @ body2 @ ''}'') = Some certs \<longrightarrow>
      stored (trace (snd (crtsh_query p w e nm src s))) =
        stored (trace s) @ [concat (map (\<lambda>cert. kept_lines w (Split cert (CHR 0x0A))) certs)])"
  using duckDuckGo_query_stored[of w s p nm body e src] siteDossier_query_names[of p w e nm src s]
    crtsh_query_stored[of w s nm body2 certs p e src]
  by blast

theorem C4_scrapers_deduplicate_witness:
  "w_http world_scraped (nreq s0)
     \<lparr>ReqURL = Sprintf (fmtstr NewDuckDuckGo) [FmtS ''example.com'', FmtS ''example.com''],
      ReqHeader = []\<rparr> = Some ''page'' \<and>
   w_ScrapeSubdomainNames world_scraped ''page'' =
     [''a.example.com'', ''A.example.com'', '' a.example.com ''] \<and>
   stored (trace (snd (duckDuckGo_query NewDuckDuckGo world_scraped event0 ''example.com''
                         (source_node ''DuckDuckGo'') s0))) = [[''a.example.com'']] \<and>
   stored (trace (snd (siteDossier_query NewSiteDossier world_scraped event0 ''example.com''
                         (source_node ''SiteDossier'') s0))) = [[''a.example.com'']] \<and>
   w_http world_certs (nreq s0)
     \<lparr>ReqURL = ''https://crt.sh/?CN='' @ ''example.com'' @ ''&output=json&exclude=expired'',
      ReqHeader = []\<rparr> = Some ''[cert]'' \<and>
   w_Unmarshal_certs world_certs
     ([CHR ''{'', CHR 0x22] @ ''certs'' @ [CHR 0x22, CHR '':''] @ ''[cert]'' @ ''}'') =
     Some [''a.example.com'' @ [CHR 0x0A] @ ''A.example.com'' @ [CHR 0x0A] @ '' a.example.com ''] \<and>
   stored (trace (snd (crtsh_query NewCrtsh world_certs event0 ''example.com''
                         (source_node ''HackerTarget'') s0))) =
     [kept_lines world_certs [''a.example.com'', ''A.example.com'', '' a.example.com '']]"
proof -
  have a: "w_http world_scraped (nreq s0)
     \<lparr>ReqURL = Sprintf (fmtstr NewDuckDuckGo) [FmtS ''example.com'', FmtS ''example.com''],
      ReqHeader = []\<rparr> = Some ''page''"
    by (simp add: world_scraped_def s0_def)
  have b: "w_ScrapeSubdomainNames world_scraped ''page'' =
     [''a.example.com'', ''A.example.com'', '' a.example.com '']"
    by (simp add: world_scraped_def raw_values_def)
  have k: "kept world_scraped [''a.example.com'', ''A.example.com'', '' a.example.com ''] =
     [''a.example.com'', ''a.example.com'', ''a.example.com'']"
    by code_simp
  have t0: "stored (trace s0) = []" by (simp add: s0_def)
  have ne: "''page'' \<noteq> []" by simp
  note T = C4_scrapers_deduplicate[of world_scraped s0 NewDuckDuckGo "''example.com''" "''page''"
        event0 "source_node ''DuckDuckGo''"]
  from T[THEN conjunct1, rule_format, OF conjI[OF a ne]]
  obtain names where n0: "stored (trace (snd (duckDuckGo_query NewDuckDuckGo world_scraped event0
        ''example.com'' (source_node ''DuckDuckGo'') s0))) = stored (trace s0) @ [names]"
      "distinct names"
      "set names = set (kept world_scraped (w_ScrapeSubdomainNames world_scraped ''page''))"
    by blast
  have n: "stored (trace (snd (duckDuckGo_query NewDuckDuckGo world_scraped event0
        ''example.com'' (source_node ''DuckDuckGo'') s0))) = [names]" "distinct names"
      "set names = {''a.example.com''}"
    using n0 unfolding b k t0 by simp_all
  have "names = [''a.example.com'']"
    using n(2,3) by (rule distinct_set_singleton)
  moreover have "stored (trace (snd (siteDossier_query NewSiteDossier world_scraped event0 ''example.com''
                         (source_node ''SiteDossier'') s0))) = [[''a.example.com'']]"
    by code_simp
  moreover have c: "w_http world_certs (nreq s0)
     \<lparr>ReqURL = ''https://crt.sh/?CN='' @ ''example.com'' @ ''&output=json&exclude=expired'',
      ReqHeader = []\<rparr> = Some ''[cert]''"
    by (simp add: world_certs_def)
  moreover have d: "w_Unmarshal_certs world_certs
     ([CHR ''{'', CHR 0x22] @ ''certs'' @ [CHR 0x22, CHR '':''] @ ''[cert]'' @ ''}'') =
     Some [''a.example.com'' @ [CHR 0x0A] @ ''A.example.com'' @ [CHR 0x0A] @ '' a.example.com '']"
    by (simp add: world_certs_def)
  moreover have "stored (trace (snd (crtsh_query NewCrtsh world_certs event0 ''example.com''
                         (source_node ''HackerTarget'') s0))) =
     [kept_lines world_certs [''a.example.com'', ''A.example.com'', '' a.example.com '']]"
    using C4_scrapers_deduplicate[where w = world_certs and s = s0 and nm = "''example.com''"
        and ?body2.0 = "''[cert]''" and p = NewCrtsh and e = event0
        and src = "source_node ''HackerTarget''"
        and certs = "[''a.example.com'' @ [CHR 0x0A] @ ''A.example.com'' @ [CHR 0x0A] @ '' a.example.com '']",
        THEN conjunct2, THEN conjunct2, rule_format, OF conjI[OF c d]] t0
    by code_simp
  ultimately show ?thesis using a b n(1) by simp
qed

text \<open>
  C1, as stated, fails outside the five handlers of FQDN events. The autnum handler never
  asks the scope filter about its subject: with a scope that rejects every asset, it
  gives its closure to the queue, creates and links two assets, dispatches a finding and
  returns nil. And a handler of FQDN events refuses a subject that is no FQDN with an
  error, before the scope filter is asked.
\<close>

theorem C1_autnum_has_no_scope_check_counterexample:
  "w_scope world_rdap (Asset (EAsset event_rdap)) = (None, 0) \<and>
   fst (autnum_check example_autnum world_rdap event_rdap s0) = None \<and>
   db_calls (trace (snd (autnum_check example_autnum world_rdap event_rdap s0))) =
     [DB_Create subject_as ''rdap_url'' (URL ''https://rdap.example.net/autnum/64500''),
      DB_Link \<lparr>ID = ''rdap_url'', LastSeen = 10001,
                Asset = URL ''https://rdap.example.net/autnum/64500''\<rparr>
        ''source'' (source_node ''RDAP''),
      DB_Create subject_as ''whois_server'' (FQDN ''whois.example.com''),
      DB_Link \<lparr>ID = ''whois_server'', LastSeen = 10001, Asset = FQDN ''whois.example.com''\<rparr>
        ''source'' (source_node ''RDAP'')] \<and>
   last (trace (snd (autnum_check example_autnum world_rdap event_rdap s0))) =
     E_ProcessAssetsWithSource
       [\<lparr>From = subject_as, FromName = ''AutnumRecord: AS64500'',
         To = \<lparr>ID = ''rdap_url'', LastSeen = 10001,
                 Asset = URL ''https://rdap.example.net/autnum/64500''\<rparr>,
         ToName = ''https://rdap.example.net/autnum/64500'', Rel = ''rdap_url''\<rparr>]
       (source_node ''RDAP'') ''RDAP'' ''RDAP-Autnum-Handler'' \<and>
   duckDuckGo_check NewDuckDuckGo world_rdap event_rdap s0 =
     (Some (ErrorNew ''failed to extract the FQDN asset''), s0)"
proof -
  have a: "w_scope world_rdap (Asset (EAsset event_rdap)) = (None, 0)"
    by (simp add: world_rdap_def)
  have b: "fst (autnum_check example_autnum world_rdap event_rdap s0) = None"
    by code_simp
  have c: "db_calls (trace (snd (autnum_check example_autnum world_rdap event_rdap s0))) =
     [DB_Create subject_as ''rdap_url'' (URL ''https://rdap.example.net/autnum/64500''),
      DB_Link \<lparr>ID = ''rdap_url'', LastSeen = 10001,
                Asset = URL ''https://rdap.example.net/autnum/64500''\<rparr>
        ''source'' (source_node ''RDAP''),
      DB_Create subject_as ''whois_server'' (FQDN ''whois.example.com''),
      DB_Link \<lparr>ID = ''whois_server'', LastSeen = 10001, Asset = FQDN ''whois.example.com''\<rparr>
        ''source'' (source_node ''RDAP'')]"
    by code_simp
  have d: "last (trace (snd (autnum_check example_autnum world_rdap event_rdap s0))) =
     E_ProcessAssetsWithSource
       [\<lparr>From = subject_as, FromName = ''AutnumRecord: AS64500'',
         To = \<lparr>ID = ''rdap_url'', LastSeen = 10001,
                 Asset = URL ''https://rdap.example.net/autnum/64500''\<rparr>,
         ToName = ''https://rdap.example.net/autnum/64500'', Rel = ''rdap_url''\<rparr>]
       (source_node ''RDAP'') ''RDAP'' ''RDAP-Autnum-Handler''"
    by code_simp
  have e: "duckDuckGo_check NewDuckDuckGo world_rdap event_rdap s0 =
     (Some (ErrorNew ''failed to extract the FQDN asset''), s0)"
    by (simp add: duckDuckGo_check_def event_rdap_def subject_as_def)
  show ?thesis using a b c d e by simp
qed

end
